theory Spec2Isabelle
  imports Main "HOL-Library.Word" "HOL-Library.Signed_Division"
begin

section \<open>Common data\<close>

text \<open>
  A Go \<^verbatim>\<open>error\<close> is a value carrying a message; \<^verbatim>\<open>fmt.Errorf\<close> builds one from a
  format string. The model keeps the formatted message, so that two errors are equal exactly
  when they print the same.
\<close>

datatype error = Error (message: string)

section \<open>Value providers (value_provider.go)\<close>

subsection \<open>Values, time and the helpers defined elsewhere\<close>

text \<open>
  A function that returns normally or panics: \<open>Return x\<close> or \<open>Panic msg\<close>. A provider's
  \<^verbatim>\<open>Get\<close> returns the pair \<^verbatim>\<open>(interface{}, error)\<close>, modelled as a value with an optional
  error: \<^verbatim>\<open>return nil, nil\<close> is \<open>Return (VNil, None)\<close>.
\<close>

datatype 'a go = Return 'a | Panic string

text \<open>
  \<^verbatim>\<open>time.Time\<close> as the instant it denotes: the seconds since the Unix epoch and the
  nanosecond within the second (\<open>0 \<le> nsec < 10^9\<close>); location and monotonic reading are left
  out, and the second counter is unbounded. \<^verbatim>\<open>Unix()\<close> and \<^verbatim>\<open>UnixNano()\<close> return \<^verbatim>\<open>int64\<close>,
  the latter wrapping around when the count of nanoseconds does not fit. Go's \<^verbatim>\<open>int\<close> is
  taken to be 64 bits wide; \<^verbatim>\<open>/\<close> on it truncates towards zero.
\<close>

record Time =
  sec :: int
  nsec :: int

type_synonym Duration = "64 word"

definition zeroTime :: Time where
  "zeroTime = \<lparr>sec = - 62135596800, nsec = 0\<rparr>"

definition Unix :: "Time \<Rightarrow> 64 word" where
  "Unix t = word_of_int (sec t)"

definition UnixNano :: "Time \<Rightarrow> 64 word" where
  "UnixNano t = word_of_int (sec t * 1000000000 + nsec t)"

definition Add :: "Time \<Rightarrow> Duration \<Rightarrow> Time" where
  "Add t d = \<lparr>sec = sec t + (nsec t + sint d) div 1000000000,
              nsec = (nsec t + sint d) mod 1000000000\<rparr>"

definition Hour :: Duration where "Hour = 3600000000000"
definition Minute :: Duration where "Minute = 60000000000"
definition Second :: Duration where "Second = 1000000000"

definition int_div :: "64 word \<Rightarrow> 64 word \<Rightarrow> 64 word" where
  "int_div a b = word_of_int (sint a sdiv sint b)"

text \<open>
  The values of \<^verbatim>\<open>interface{}\<close> the providers take and return. Floating-point numbers stay
  abstract (the type parameter \<open>'f\<close>).
\<close>

datatype 'f "value" =
    VNil
  | VBool bool
  | VInt "64 word"
  | VFloat 'f
  | VString string
  | VTime Time

text \<open>
  The converters \<^verbatim>\<open>AsString\<close>, \<^verbatim>\<open>AsInt\<close>, \<^verbatim>\<open>AsFloat\<close>, \<^verbatim>\<open>AsBoolean\<close>, \<^verbatim>\<open>AsTime\<close> and the time
  functions \<^verbatim>\<open>ParseTime\<close>, \<^verbatim>\<open>DateFormatToLayout\<close> belong to package toolbox but to files
  other than the one at hand; \<^verbatim>\<open>Time.Format\<close> is the host's. The providers take them as
  parameters, collected in one record. \<^verbatim>\<open>AsTime\<close> returns a pointer: \<open>None\<close> is nil.
\<close>

record 'f helpers =
  AsString :: "'f value \<Rightarrow> string"
  AsInt :: "'f value \<Rightarrow> 64 word"
  AsFloat :: "'f value \<Rightarrow> 'f"
  AsBoolean :: "'f value \<Rightarrow> bool"
  AsTime :: "'f value \<Rightarrow> string \<Rightarrow> Time option"
  ParseTime :: "string \<Rightarrow> string \<Rightarrow> error + Time"
  DateFormatToLayout :: "string \<Rightarrow> string"
  Format :: "Time \<Rightarrow> string \<Rightarrow> string"

text \<open>\<^verbatim>\<open>strings.ToLower\<close> on ASCII letters; other bytes are left as they are.\<close>

definition toLowerChar :: "char \<Rightarrow> char" where
  "toLowerChar c =
     (case c of Char b0 b1 b2 b3 b4 b5 b6 b7 \<Rightarrow>
        if 65 \<le> (of_char c :: nat) \<and> (of_char c :: nat) \<le> 90
        then Char b0 b1 b2 b3 b4 True b6 b7 else c)"

definition ToLower :: "string \<Rightarrow> string" where
  "ToLower s = map toLowerChar s"

text \<open>The verb \<^verbatim>\<open>%v\<close> of \<^verbatim>\<open>fmt\<close> on a length: its decimal numeral.\<close>

definition digitChar :: "nat \<Rightarrow> char" where
  "digitChar n = ''0123456789'' ! n"

function showNat :: "nat \<Rightarrow> string" where
  "showNat n = (if n < 10 then [digitChar n] else showNat (n div 10) @ [digitChar (n mod 10)])"
  by pat_completeness auto
termination
  by (relation "measure id") auto

declare showNat.simps [simp del]

subsection \<open>The registry of value providers\<close>

text \<open>
  \<^verbatim>\<open>type valueProviderRegistryImpl struct { registry map[string](ValueProvider) }\<close>, the
  map made by \<^verbatim>\<open>NewValueProviderRegistry\<close>. The providers stay abstract (\<open>'p\<close>).
\<close>

record 'p valueProviderRegistryImpl =
  registry :: "string \<rightharpoonup> 'p"

definition valueProviderRegistryImpl_Register ::
  "'p valueProviderRegistryImpl \<Rightarrow> string \<Rightarrow> 'p \<Rightarrow> 'p valueProviderRegistryImpl" where
  "valueProviderRegistryImpl_Register r name valueProvider =
     r\<lparr>valueProviderRegistryImpl.registry := (valueProviderRegistryImpl.registry r)(name \<mapsto> valueProvider)\<rparr>"

definition valueProviderRegistryImpl_Contains :: "'p valueProviderRegistryImpl \<Rightarrow> string \<Rightarrow> bool" where
  "valueProviderRegistryImpl_Contains r name =
     (case valueProviderRegistryImpl.registry r name of Some _ \<Rightarrow> True | None \<Rightarrow> False)"

definition valueProviderRegistryImpl_Get :: "'p valueProviderRegistryImpl \<Rightarrow> string \<Rightarrow> 'p go" where
  "valueProviderRegistryImpl_Get r name =
     (case valueProviderRegistryImpl.registry r name of
        Some result \<Rightarrow> Return result
      | None \<Rightarrow> Panic (''failed to lookup name: '' @ name))"

definition NewValueProviderRegistry :: "'p valueProviderRegistryImpl" where
  "NewValueProviderRegistry = \<lparr>valueProviderRegistryImpl.registry = Map.empty\<rparr>"

subsection \<open>castedValueProvider\<close>

text \<open>
  \<^verbatim>\<open>arguments[0].(string)\<close> panics on an empty argument list and on a first argument that is
  not a string.
\<close>

definition castedValueProvider_Get :: "'f helpers \<Rightarrow> 'f value list \<Rightarrow> ('f value \<times> error option) go" where
  "castedValueProvider_Get h arguments =
     (case arguments of
        [] \<Rightarrow> Panic ''index out of range''
      | VString key # _ \<Rightarrow>
          if length arguments < 2 then
            Return (VNil, Some (Error (''failed to cast to '' @ key @
              '' due to invalid number of arguments, Wanted 2 but had:'' @ showNat (length arguments))))
          else if key = ''time'' then
            (if length arguments \<noteq> 3 then
               Return (VNil, Some (Error (''failed to cast to time due to invalid number of arguments expected 2, but had '' @
                 showNat (length arguments - 1))))
             else
               (case ParseTime h (AsString h (arguments ! 1)) (AsString h (arguments ! 2)) of
                  Inl err \<Rightarrow>
                    Return (VNil, Some (Error (''failed to cast to time '' @ AsString h (arguments ! 1) @
                      '' due to '' @ message err)))
                | Inr castedTime \<Rightarrow> Return (VTime castedTime, None)))
          else if key = ''int'' then Return (VInt (AsInt h (arguments ! 1)), None)
          else if key = ''float'' then Return (VFloat (AsFloat h (arguments ! 1)), None)
          else if key = ''bool'' then Return (VBool (AsBoolean h (arguments ! 1)), None)
          else if key = ''string'' then Return (VString (AsString h (arguments ! 1)), None)
          else Return (VNil, Some (Error (''failed to cast to '' @ key @ '' - unsupported type'')))
      | _ # _ \<Rightarrow> Panic ''interface conversion: interface {} is not string'')"

subsection \<open>timeDiffProvider\<close>

text \<open>\<open>now\<close> is what \<^verbatim>\<open>time.Now()\<close> reads when it is called.\<close>

definition timeDiffProvider_Get :: "'f helpers \<Rightarrow> Time \<Rightarrow> 'f value list \<Rightarrow> ('f value \<times> error option) go" where
  "timeDiffProvider_Get h now arguments =
     (let resultTime =
            (if length arguments \<ge> 1 then
               (if ToLower (AsString h (arguments ! 0)) = ''now'' then now
                else (case AsTime h (arguments ! 0) [] of
                        Some extractedTime \<Rightarrow> extractedTime
                      | None \<Rightarrow> zeroTime))
             else zeroTime);
          durationDelta =
            (if length arguments \<ge> 3 then
               (let amount = AsInt h (arguments ! 1);
                    unit = ToLower (AsString h (arguments ! 2))
                in if unit = ''day'' then (amount * 24) * Hour
                   else if unit = ''week'' then (amount * 24 * 7) * Hour
                   else if unit = ''hour'' then amount * Hour
                   else if unit = ''min'' then amount * Minute
                   else if unit = ''sec'' then amount * Second
                   else 0)
             else 0);
          format = (if length arguments = 4 then AsString h (arguments ! 3) else []);
          resultTime = Add resultTime durationDelta
      in if format = ''unix'' then
           Return (VInt (int_div (Unix resultTime + UnixNano resultTime) 1000000000), None)
         else if format = ''timestamp'' then
           Return (VInt (int_div (Unix resultTime + UnixNano resultTime) 1000000), None)
         else if length format > 0 then
           Return (VString (Format h resultTime (DateFormatToLayout h format)), None)
         else Return (VTime resultTime, None))"

subsection \<open>Dictionary and dictionaryProvider\<close>

text \<open>
  The interface \<^verbatim>\<open>Dictionary\<close> as the record of its two methods, and \<^verbatim>\<open>MapDictionary\<close>, the
  map that implements it.
\<close>

record 'f Dictionary =
  Dictionary_Get :: "string \<Rightarrow> ('f value \<times> error option) go"
  Dictionary_Exists :: "string \<Rightarrow> bool"

definition MapDictionary_Get :: "(string \<rightharpoonup> 'f value) \<Rightarrow> string \<Rightarrow> ('f value \<times> error option) go" where
  "MapDictionary_Get d name =
     (case d name of
        Some result \<Rightarrow> Return (result, None)
      | None \<Rightarrow> Return (VNil, Some (Error (''failed to lookup: '' @ name))))"

definition MapDictionary_Exists :: "(string \<rightharpoonup> 'f value) \<Rightarrow> string \<Rightarrow> bool" where
  "MapDictionary_Exists d name = (case d name of Some _ \<Rightarrow> True | None \<Rightarrow> False)"

definition MapDictionary :: "(string \<rightharpoonup> 'f value) \<Rightarrow> 'f Dictionary" where
  "MapDictionary d = \<lparr>Dictionary_Get = MapDictionary_Get d, Dictionary_Exists = MapDictionary_Exists d\<rparr>"

text \<open>
  \<^verbatim>\<open>Context\<close> is declared in another file of the package. Of it the provider uses
  \<^verbatim>\<open>GetInto(key, &dictionary)\<close>, which stores into \<open>dictionary\<close> what the context holds under
  the key; it is the parameter \<open>GetInto\<close>, and \<open>None\<close> means that the variable stays nil, on
  which every method call panics. Next to its result the provider returns the dictionary
  calls it made, in order (a ghost output); \<^verbatim>\<open>&&\<close> does not evaluate its right operand
  when the left one is false, so \<^verbatim>\<open>Exists\<close> is called for a single argument only.
\<close>

record 'k dictionaryProvider =
  dictionaryContentKey :: 'k

datatype dictionaryCall = CallGetInto | CallExists string | CallGet string

definition dictionaryProvider_Get ::
  "'f helpers \<Rightarrow> ('c \<Rightarrow> 'k \<Rightarrow> 'f Dictionary option) \<Rightarrow> 'k dictionaryProvider \<Rightarrow> 'c \<Rightarrow> 'f value list
     \<Rightarrow> ('f value \<times> error option) go \<times> dictionaryCall list" where
  "dictionaryProvider_Get h GetInto p context arguments =
     (if length arguments = 0 then
        (Return (VNil, Some (Error ''Expected at least one argument but had 0'')), [])
      else
        (let key = AsString h (arguments ! 0) in
         case GetInto context (dictionaryContentKey p) of
           None \<Rightarrow> (Panic ''invalid memory address or nil pointer dereference'', [CallGetInto])
         | Some dictionary \<Rightarrow>
             (let asked = (if length arguments = 1 then [CallExists key] else []) in
              if length arguments = 1 \<and> \<not> Dictionary_Exists dictionary key then
                (Return (VNil, None), CallGetInto # asked)
              else (Dictionary_Get dictionary key, CallGetInto # asked @ [CallGet key]))))"

section \<open>Storage service facade (storage/service.go)\<close>

subsection \<open>Backends\<close>

text \<open>
  The registry holds values of the interface \<^verbatim>\<open>Service\<close>, that is references to backend
  objects. A reference is an address; \<open>impl\<close> (a parameter of every operation below) gives the
  method table of the object at an address. Backends do I/O and keep state of their own: a
  method takes the world \<open>'w\<close> and returns its result with the new world.

  Of \<^verbatim>\<open>Object\<close> the facade uses the method \<^verbatim>\<open>URL()\<close> only; an \<^verbatim>\<open>io.Reader\<close> is modelled by
  the bytes it yields. The interface's own \<^verbatim>\<open>Register\<close> is never called by the facade and is
  left out of the method table.
\<close>

type_synonym ref = nat

record Object =
  URL :: string

type_synonym Reader = string

record 'w Service =
  List :: "string \<Rightarrow> 'w \<Rightarrow> (error + Object list) \<times> 'w"
  Exists :: "string \<Rightarrow> 'w \<Rightarrow> (error + bool) \<times> 'w"
  StorageObject :: "string \<Rightarrow> 'w \<Rightarrow> (error + Object) \<times> 'w"
  Download :: "Object \<Rightarrow> 'w \<Rightarrow> (error + Reader) \<times> 'w"
  Upload :: "string \<Rightarrow> Reader \<Rightarrow> 'w \<Rightarrow> error option \<times> 'w"
  Delete :: "Object \<Rightarrow> 'w \<Rightarrow> error option \<times> 'w"
  Close :: "'w \<Rightarrow> error option \<times> 'w"

text \<open>
  To state which backend methods an operation invokes, the state threaded through the facade
  is the world together with a log of the calls made so far (a ghost component: backends
  neither read nor write it). \<open>invoke r m f\<close> runs the method \<open>f\<close> of the backend at \<open>r\<close> and
  appends the call to the log.
\<close>

datatype operation = MList | MExists | MStorageObject | MDownload | MUpload | MDelete | MClose

type_synonym call = "ref \<times> operation"

type_synonym 'w state = "'w \<times> call list"

definition invoke :: "ref \<Rightarrow> operation \<Rightarrow> ('w \<Rightarrow> 'a \<times> 'w) \<Rightarrow> 'w state \<Rightarrow> 'a \<times> 'w state" where
  "invoke r m f \<sigma> = (case f (fst \<sigma>) of (a, w') \<Rightarrow> (a, (w', snd \<sigma> @ [(r, m)])))"

subsection \<open>The facade\<close>

text \<open>
  \<^verbatim>\<open>type storageService struct { registry map[string]Service }\<close>. The map is made by
  \<^verbatim>\<open>NewService\<close>, the only place that builds a \<^verbatim>\<open>storageService\<close>, so it is never nil.

  \<^verbatim>\<open>url.Parse\<close> is the host's; it is the parameter \<open>parse\<close>, which returns the parsed URL (of
  which only \<^verbatim>\<open>Scheme\<close> is read) or an error.
\<close>

record storageService =
  registry :: "string \<rightharpoonup> ref"

record ParsedURL =
  Scheme :: string

type_synonym urlParse = "string \<Rightarrow> error + ParsedURL"

definition getServiceForSchema :: "urlParse \<Rightarrow> storageService \<Rightarrow> string \<Rightarrow> error + ref" where
  "getServiceForSchema parse s url =
     (case parse url of
        Inl err \<Rightarrow> Inl err
      | Inr parsedUrl \<Rightarrow>
          (case registry s (Scheme parsedUrl) of
             Some result \<Rightarrow> Inr result
           | None \<Rightarrow> Inl (Error (''failed to lookup url schema '' @ Scheme parsedUrl @ '' in '' @ url))))"

definition storageService_List ::
  "(ref \<Rightarrow> 'w Service) \<Rightarrow> urlParse \<Rightarrow> storageService \<Rightarrow> string \<Rightarrow> 'w state \<Rightarrow> (error + Object list) \<times> 'w state" where
  "storageService_List impl parse s url \<sigma> =
     (case getServiceForSchema parse s url of
        Inl err \<Rightarrow> (Inl err, \<sigma>)
      | Inr service \<Rightarrow> invoke service MList (List (impl service) url) \<sigma>)"

definition storageService_Exists ::
  "(ref \<Rightarrow> 'w Service) \<Rightarrow> urlParse \<Rightarrow> storageService \<Rightarrow> string \<Rightarrow> 'w state \<Rightarrow> (error + bool) \<times> 'w state" where
  "storageService_Exists impl parse s url \<sigma> =
     (case getServiceForSchema parse s url of
        Inl err \<Rightarrow> (Inl err, \<sigma>)
      | Inr service \<Rightarrow> invoke service MExists (Exists (impl service) url) \<sigma>)"

definition storageService_StorageObject ::
  "(ref \<Rightarrow> 'w Service) \<Rightarrow> urlParse \<Rightarrow> storageService \<Rightarrow> string \<Rightarrow> 'w state \<Rightarrow> (error + Object) \<times> 'w state" where
  "storageService_StorageObject impl parse s url \<sigma> =
     (case getServiceForSchema parse s url of
        Inl err \<Rightarrow> (Inl err, \<sigma>)
      | Inr service \<Rightarrow> invoke service MStorageObject (StorageObject (impl service) url) \<sigma>)"

definition storageService_Download ::
  "(ref \<Rightarrow> 'w Service) \<Rightarrow> urlParse \<Rightarrow> storageService \<Rightarrow> Object \<Rightarrow> 'w state \<Rightarrow> (error + Reader) \<times> 'w state" where
  "storageService_Download impl parse s object \<sigma> =
     (case getServiceForSchema parse s (URL object) of
        Inl err \<Rightarrow> (Inl err, \<sigma>)
      | Inr service \<Rightarrow> invoke service MDownload (Download (impl service) object) \<sigma>)"

definition storageService_Upload ::
  "(ref \<Rightarrow> 'w Service) \<Rightarrow> urlParse \<Rightarrow> storageService \<Rightarrow> string \<Rightarrow> Reader \<Rightarrow> 'w state \<Rightarrow> error option \<times> 'w state" where
  "storageService_Upload impl parse s url reader \<sigma> =
     (case getServiceForSchema parse s url of
        Inl err \<Rightarrow> (Some err, \<sigma>)
      | Inr service \<Rightarrow> invoke service MUpload (Upload (impl service) url reader) \<sigma>)"

definition storageService_Delete ::
  "(ref \<Rightarrow> 'w Service) \<Rightarrow> urlParse \<Rightarrow> storageService \<Rightarrow> Object \<Rightarrow> 'w state \<Rightarrow> error option \<times> 'w state" where
  "storageService_Delete impl parse s object \<sigma> =
     (case getServiceForSchema parse s (URL object) of
        Inl err \<Rightarrow> (Some err, \<sigma>)
      | Inr service \<Rightarrow> invoke service MDelete (Delete (impl service) object) \<sigma>)"

text \<open>
  \<^verbatim>\<open>Close\<close> ranges over the map. Go visits every entry once, in an order it does not specify:
  the order is the parameter \<open>entries\<close>, a list of the map's key/value pairs
  (\<open>enumerates entries (registry s)\<close>). The loop returns at the first error.
\<close>

definition enumerates :: "('k \<times> 'v) list \<Rightarrow> ('k \<rightharpoonup> 'v) \<Rightarrow> bool" where
  "enumerates entries m \<longleftrightarrow> distinct (map fst entries) \<and> map_of entries = m"

fun closeLoop :: "(ref \<Rightarrow> 'w Service) \<Rightarrow> (string \<times> ref) list \<Rightarrow> 'w state \<Rightarrow> error option \<times> 'w state" where
  "closeLoop impl [] \<sigma> = (None, \<sigma>)"
| "closeLoop impl ((schema, service) # rest) \<sigma> =
     (case invoke service MClose (Close (impl service)) \<sigma> of
        (Some err, \<sigma>') \<Rightarrow> (Some err, \<sigma>')
      | (None, \<sigma>') \<Rightarrow> closeLoop impl rest \<sigma>')"

definition storageService_Close ::
  "(ref \<Rightarrow> 'w Service) \<Rightarrow> (string \<times> ref) list \<Rightarrow> 'w state \<Rightarrow> error option \<times> 'w state" where
  "storageService_Close impl entries \<sigma> = closeLoop impl entries \<sigma>"

definition storageService_Register :: "storageService \<Rightarrow> string \<Rightarrow> ref \<Rightarrow> error option \<times> storageService" where
  "storageService_Register s schema service = (None, s\<lparr>registry := (registry s)(schema \<mapsto> service)\<rparr>)"

section \<open>Date-format translator (time_format.go, modelled from the specification)\<close>

text \<open>
  \<^verbatim>\<open>DateFormatToLayout\<close>, the translator of the file time_format.go, is not among the
  sources; only its tests are. It is modelled from section 4.1 of the specification, which
  calls it \<^verbatim>\<open>ToLayout\<close>.
\<close>

text \<open>
  Modelled from the spec: the token table of \<^verbatim>\<open>DateFormatToLayout\<close>, as the ordered table of
  (token, replacement) pairs, longest tokens first, that the design notes of the
  specification ask for. The table of section 4.1 lists the tokens and names their layout
  forms ("reference year, 4-digit form", "reference month numeral forms", ...); the layout
  texts are those forms of the host's reference time, Mon Jan 2 15:04:05 MST 2006. For the
  numeric zone offset the table names two forms, with and without colon; the repository's
  test \<^verbatim>\<open>TestTimeFormat\<close> parses the text "+0000" under \<^verbatim>\<open>ZZ\<close>, so \<^verbatim>\<open>ZZ\<close> is the form without
  colon.
\<close>

definition tokenTable :: "(string \<times> string) list" where
  "tokenTable =
     [(''yyyy'', ''2006''), (''SSS'', ''000''),
      (''yy'', ''06''), (''MM'', ''01''), (''dd'', ''02''), (''HH'', ''15''), (''hh'', ''03''),
      (''mm'', ''04''), (''ss'', ''05''), (''ZZ'', ''-0700''),
      (''M'', ''1''), (''d'', ''2''), (''z'', ''MST''), (''Z'', ''-07:00'')]"

text \<open>
  Modelled from the spec: the attempt at one scan position. The first entry of the table
  whose token the rest of the pattern starts with; the table being ordered, a longest one.
\<close>

definition startsWith :: "string \<Rightarrow> string \<Rightarrow> bool" where
  "startsWith s tok \<longleftrightarrow> take (length tok) s = tok"

definition matchToken :: "string \<Rightarrow> (string \<times> string) option" where
  "matchToken s = find (\<lambda>entry. startsWith s (fst entry)) tokenTable"

text \<open>
  Modelled from the spec: the scan of \<^verbatim>\<open>DateFormatToLayout\<close>. "Scan the pattern left to
  right; at each position, attempt the longest known token starting there; emit its mapped
  layout substring; on no match, emit the input character unchanged and advance by one." A
  token matched at \<open>c # cs\<close> has \<open>c\<close> as its first character, so the scan goes on behind
  the token at \<open>drop (length tok - 1) cs\<close>.
\<close>

function ToLayout :: "string \<Rightarrow> string" where
  "ToLayout [] = []"
| "ToLayout (c # cs) =
     (case matchToken (c # cs) of
        Some (tok, out) \<Rightarrow> out @ ToLayout (drop (length tok - 1) cs)
      | None \<Rightarrow> c # ToLayout cs)"
  by pat_completeness auto
termination
  by (relation "measure length") (auto intro: le_imp_less_Suc)



section \<open>The host's parser on reference layouts\<close>

definition isDigit :: "char \<Rightarrow> bool" where
  "isDigit c \<longleftrightarrow> 48 \<le> (of_char c :: nat) \<and> (of_char c :: nat) \<le> 57"

definition atoi :: "string \<Rightarrow> nat" where
  "atoi s = foldl (\<lambda>n c. 10 * n + ((of_char c :: nat) - 48)) 0 s"

text \<open>
  \<^verbatim>\<open>time.Parse\<close> is the host's, not the repository's: the statements about parsing take the
  parser as a parameter. \<open>referenceParse\<close> is a model of it for layouts written with the
  reference forms 2006, 01, 02, 15, 04, 05, .000 and -0700, which the example needs: the year
  takes four digits, the hour one or two, the other numbers two, the fraction a period and
  three digits, the zone offset a sign and four digits; every other character of the layout
  stands for itself. Month, day, hour, minute and second are checked to be in range.
\<close>

record ParsedTime =
  year :: nat
  month :: nat
  day :: nat
  hour :: nat
  minute :: nat
  second :: nat
  nanosecond :: nat
  zoneOffset :: int

datatype item =
  Lit char | LongYear | ZeroMonth | ZeroDay | Hour24 | ZeroMinute | ZeroSecond | Millis | NumTZ

function layoutItems :: "string \<Rightarrow> item list" where
  "layoutItems [] = []"
| "layoutItems (c # cs) =
     (if startsWith (c # cs) ''2006'' then LongYear # layoutItems (drop 3 cs)
      else if startsWith (c # cs) ''-0700'' then NumTZ # layoutItems (drop 4 cs)
      else if startsWith (c # cs) ''.000'' then Millis # layoutItems (drop 3 cs)
      else if startsWith (c # cs) ''01'' then ZeroMonth # layoutItems (drop 1 cs)
      else if startsWith (c # cs) ''02'' then ZeroDay # layoutItems (drop 1 cs)
      else if startsWith (c # cs) ''15'' then Hour24 # layoutItems (drop 1 cs)
      else if startsWith (c # cs) ''04'' then ZeroMinute # layoutItems (drop 1 cs)
      else if startsWith (c # cs) ''05'' then ZeroSecond # layoutItems (drop 1 cs)
      else Lit c # layoutItems cs)"
  by pat_completeness auto
termination
  by (relation "measure length") (auto intro: le_imp_less_Suc)

definition digits :: "nat \<Rightarrow> string \<Rightarrow> nat option" where
  "digits n v = (if n \<le> length v \<and> list_all isDigit (take n v) then Some (atoi (take n v)) else None)"

definition isLeap :: "nat \<Rightarrow> bool" where
  "isLeap y \<longleftrightarrow> y mod 4 = 0 \<and> (y mod 100 \<noteq> 0 \<or> y mod 400 = 0)"

definition daysIn :: "nat \<Rightarrow> nat \<Rightarrow> nat" where
  "daysIn m y = (if m = 2 then (if isLeap y then 29 else 28)
                 else if m = 4 \<or> m = 6 \<or> m = 9 \<or> m = 11 then 30 else 31)"

fun parseItems :: "item list \<Rightarrow> string \<Rightarrow> ParsedTime \<Rightarrow> error + ParsedTime" where
  "parseItems [] v t =
     (if v \<noteq> [] then Inl (Error ''extra text'')
      else if day t < 1 \<or> daysIn (month t) (year t) < day t then Inl (Error ''day out of range'')
      else Inr t)"
| "parseItems (Lit c # is) v t =
     (case v of
        [] \<Rightarrow> Inl (Error ''cannot parse'')
      | x # xs \<Rightarrow> if x = c then parseItems is xs t else Inl (Error ''cannot parse''))"
| "parseItems (LongYear # is) v t =
     (case digits 4 v of
        None \<Rightarrow> Inl (Error ''cannot parse'')
      | Some n \<Rightarrow> parseItems is (drop 4 v) (t\<lparr>year := n\<rparr>))"
| "parseItems (ZeroMonth # is) v t =
     (case digits 2 v of
        None \<Rightarrow> Inl (Error ''cannot parse'')
      | Some n \<Rightarrow> if n < 1 \<or> 12 < n then Inl (Error ''month out of range'')
                  else parseItems is (drop 2 v) (t\<lparr>month := n\<rparr>))"
| "parseItems (ZeroDay # is) v t =
     (case digits 2 v of
        None \<Rightarrow> Inl (Error ''cannot parse'')
      | Some n \<Rightarrow> parseItems is (drop 2 v) (t\<lparr>day := n\<rparr>))"
| "parseItems (Hour24 # is) v t =
     (case digits 2 v of
        None \<Rightarrow> (case digits 1 v of
                    None \<Rightarrow> Inl (Error ''cannot parse'')
                  | Some n \<Rightarrow> parseItems is (drop 1 v) (t\<lparr>hour := n\<rparr>))
      | Some n \<Rightarrow> if 24 \<le> n then Inl (Error ''hour out of range'')
                  else parseItems is (drop 2 v) (t\<lparr>hour := n\<rparr>))"
| "parseItems (ZeroMinute # is) v t =
     (case digits 2 v of
        None \<Rightarrow> Inl (Error ''cannot parse'')
      | Some n \<Rightarrow> if 60 \<le> n then Inl (Error ''minute out of range'')
                  else parseItems is (drop 2 v) (t\<lparr>minute := n\<rparr>))"
| "parseItems (ZeroSecond # is) v t =
     (case digits 2 v of
        None \<Rightarrow> Inl (Error ''cannot parse'')
      | Some n \<Rightarrow> if 60 \<le> n then Inl (Error ''second out of range'')
                  else parseItems is (drop 2 v) (t\<lparr>second := n\<rparr>))"
| "parseItems (Millis # is) v t =
     (case v of
        [] \<Rightarrow> Inl (Error ''cannot parse'')
      | x # xs \<Rightarrow>
          if x \<noteq> CHR ''.'' then Inl (Error ''cannot parse'')
          else (case digits 3 xs of
                  None \<Rightarrow> Inl (Error ''cannot parse'')
                | Some n \<Rightarrow> parseItems is (drop 3 xs) (t\<lparr>nanosecond := n * 1000000\<rparr>)))"
| "parseItems (NumTZ # is) v t =
     (case v of
        [] \<Rightarrow> Inl (Error ''cannot parse'')
      | x # xs \<Rightarrow>
          (case (digits 2 xs, digits 2 (drop 2 xs)) of
             (Some h, Some m) \<Rightarrow>
               if x = CHR ''+'' then
                 parseItems is (drop 4 xs) (t\<lparr>zoneOffset := int ((h * 60 + m) * 60)\<rparr>)
               else if x = CHR ''-'' then
                 parseItems is (drop 4 xs) (t\<lparr>zoneOffset := - int ((h * 60 + m) * 60)\<rparr>)
               else Inl (Error ''cannot parse'')
           | _ \<Rightarrow> Inl (Error ''cannot parse'')))"

definition referenceParse :: "string \<Rightarrow> string \<Rightarrow> error + ParsedTime" where
  "referenceParse layout v =
     parseItems (layoutItems layout) v
       \<lparr>year = 1, month = 1, day = 1, hour = 0, minute = 0, second = 0, nanosecond = 0,
        zoneOffset = 0\<rparr>"

section \<open>Notions the statements use\<close>

text \<open>
  The world after the backends \<open>rs\<close> have been closed in turn, and the result the \<open>i\<close>-th
  entry's \<^verbatim>\<open>Close\<close> gives once the entries before it have been closed.
\<close>

definition closedWorld :: "(ref \<Rightarrow> 'w Service) \<Rightarrow> ref list \<Rightarrow> 'w \<Rightarrow> 'w" where
  "closedWorld impl rs w = fold (\<lambda>r w. snd (Close (impl r) w)) rs w"

definition closeResult :: "(ref \<Rightarrow> 'w Service) \<Rightarrow> (string \<times> ref) list \<Rightarrow> 'w \<Rightarrow> nat \<Rightarrow> error option" where
  "closeResult impl entries w i =
     fst (Close (impl (snd (entries ! i))) (closedWorld impl (map snd (take i entries)) w))"

definition closeCalls :: "(string \<times> ref) list \<Rightarrow> call list" where
  "closeCalls entries = map (\<lambda>e. (snd e, MClose)) entries"

text \<open>A run of \<^verbatim>\<open>Register\<close> calls on the registry of value providers, first to last.\<close>

definition registerAll ::
  "'p valueProviderRegistryImpl \<Rightarrow> (string \<times> 'p) list \<Rightarrow> 'p valueProviderRegistryImpl" where
  "registerAll r regs = foldl (\<lambda>r (name, p). valueProviderRegistryImpl_Register r name p) r regs"

section \<open>Instances for the examples\<close>

text \<open>
  A stand-in for \<^verbatim>\<open>url.Parse\<close>: the scheme is the text before the first colon (empty when
  there is none), and parsing never fails.
\<close>

definition sampleParse :: urlParse where
  "sampleParse url =
     Inr \<lparr>Scheme = (if CHR '':'' \<in> set url then takeWhile (\<lambda>c. c \<noteq> CHR '':'') url else [])\<rparr>"

text \<open>
  Backends over a world that counts the backend calls made. The backend at address 1 fails
  to close; every other call succeeds.
\<close>

definition sampleBackend :: "ref \<Rightarrow> nat Service" where
  "sampleBackend r =
     \<lparr>List = (\<lambda>url w. (Inr [\<lparr>URL = url\<rparr>], Suc w)),
      Exists = (\<lambda>url w. (Inr True, Suc w)),
      StorageObject = (\<lambda>url w. (Inr \<lparr>URL = url\<rparr>, Suc w)),
      Download = (\<lambda>object w. (Inr (URL object), Suc w)),
      Upload = (\<lambda>url reader w. (None, Suc w)),
      Delete = (\<lambda>object w. (None, Suc w)),
      Close = (\<lambda>w. (if r = 1 then Some (Error ''close failed'') else None, Suc w))\<rparr>"

definition emptyService :: storageService where
  "emptyService = \<lparr>registry = Map.empty\<rparr>"

text \<open>
  Modelled from the spec: the converters of package toolbox, whose file is not among the
  sources, for the examples. The specification gives their contract: best-effort conversions
  that never fail, absent or invalid input giving the zero value of the type. A string
  converts to itself and a time to itself; a string of decimal digits converts to its
  number. The examples do not reach \<^verbatim>\<open>ParseTime\<close> and \<^verbatim>\<open>Format\<close>, which are left trivial.
\<close>

definition sampleHelpers :: "unit helpers" where
  "sampleHelpers =
     \<lparr>AsString = (\<lambda>v. case v of VString s \<Rightarrow> s | _ \<Rightarrow> []),
      AsInt = (\<lambda>v. case v of
                 VInt i \<Rightarrow> i
               | VString s \<Rightarrow> if s \<noteq> [] \<and> list_all isDigit s then of_nat (atoi s) else 0
               | _ \<Rightarrow> 0),
      AsFloat = (\<lambda>v. ()),
      AsBoolean = (\<lambda>v. case v of VBool b \<Rightarrow> b | _ \<Rightarrow> False),
      AsTime = (\<lambda>v layout. case v of VTime t \<Rightarrow> Some t | _ \<Rightarrow> None),
      ParseTime = (\<lambda>text pattern. Inl (Error ''cannot parse'')),
      DateFormatToLayout = ToLayout,
      Format = (\<lambda>t layout. layout)\<rparr>"

text \<open>
  Modelled from the spec: \<^verbatim>\<open>Context.GetInto\<close>, for the examples. The provider "retrieves a
  Dictionary instance previously stored in the context under a configured key": a context is
  the map from keys to the dictionaries stored under them.
\<close>

definition sampleGetInto :: "('k \<rightharpoonup> 'f Dictionary) \<Rightarrow> 'k \<Rightarrow> 'f Dictionary option" where
  "sampleGetInto context key = context key"

section \<open>The storage facade: dispatch, registration, closing\<close>

lemma invoke_eq: "invoke r m f (w, calls) = (fst (f w), (snd (f w), calls @ [(r, m)]))"
  by (simp add: invoke_def split: prod.splits)

lemma closeLoop_Nil_eq: "closeLoop impl [] \<sigma> = (None, \<sigma>)"
  by (simp add: closeLoop.simps)

lemma closeLoop_Cons_eq:
  "closeLoop impl ((k, r) # rest) (w, calls) =
     (case fst (Close (impl r) w) of
        Some err \<Rightarrow> (Some err, (snd (Close (impl r) w), calls @ [(r, MClose)]))
      | None \<Rightarrow> closeLoop impl rest (snd (Close (impl r) w), calls @ [(r, MClose)]))"
  by (simp add: closeLoop.simps invoke_eq split: option.splits)

declare closeLoop.simps [simp del]

lemma closedWorld_Nil: "closedWorld impl [] w = w"
  by (simp add: closedWorld_def)

lemma closedWorld_Cons: "closedWorld impl (r # rs) w = closedWorld impl rs (snd (Close (impl r) w))"
  by (simp add: closedWorld_def)

lemma closeResult_0: "closeResult impl ((k, r) # rest) w 0 = fst (Close (impl r) w)"
  by (simp add: closeResult_def closedWorld_Nil)

lemma closeResult_Suc:
  "closeResult impl ((k, r) # rest) w (Suc i) = closeResult impl rest (snd (Close (impl r) w)) i"
  by (simp add: closeResult_def closedWorld_Cons)

lemma closeCalls_Nil: "closeCalls [] = []"
  by (simp add: closeCalls_def)

lemma closeCalls_Cons: "closeCalls ((k, r) # rest) = (r, MClose) # closeCalls rest"
  by (simp add: closeCalls_def)

text \<open>The loop, characterised by the number n of entries it visits.\<close>

lemma closeLoop_visits:
  "\<exists>n\<le>length entries.
      snd (snd (closeLoop impl entries (w, calls))) = calls @ closeCalls (take n entries)
    \<and> fst (snd (closeLoop impl entries (w, calls))) = closedWorld impl (map snd (take n entries)) w
    \<and> (\<forall>i<n - 1. closeResult impl entries w i = None)
    \<and> (case fst (closeLoop impl entries (w, calls)) of
          None \<Rightarrow> n = length entries \<and> (\<forall>i<n. closeResult impl entries w i = None)
        | Some err \<Rightarrow> 0 < n \<and> closeResult impl entries w (n - 1) = Some err)"
proof (induction entries arbitrary: w calls)
  case Nil
  show ?case by (simp add: closeLoop_Nil_eq closeCalls_Nil closedWorld_Nil)
next
  case (Cons e rest)
  obtain k r where e: "e = (k, r)" by (cases e)
  show ?case
  proof (cases "fst (Close (impl r) w)")
    case (Some err)
    have "snd (snd (closeLoop impl (e # rest) (w, calls))) = calls @ closeCalls (take 1 (e # rest))"
      using Some by (simp add: e closeLoop_Cons_eq closeCalls_Cons closeCalls_Nil)
    moreover have "fst (snd (closeLoop impl (e # rest) (w, calls))) =
        closedWorld impl (map snd (take 1 (e # rest))) w"
      using Some by (simp add: e closeLoop_Cons_eq closedWorld_Cons closedWorld_Nil)
    moreover have "fst (closeLoop impl (e # rest) (w, calls)) = Some err"
      using Some by (simp add: e closeLoop_Cons_eq)
    moreover have "closeResult impl (e # rest) w 0 = Some err"
      using Some by (simp add: e closeResult_0)
    ultimately show ?thesis
      by (intro exI [of _ 1]) simp
  next
    case None
    let ?w = "snd (Close (impl r) w)"
    let ?c = "calls @ [(r, MClose)]"
    have step: "closeLoop impl (e # rest) (w, calls) = closeLoop impl rest (?w, ?c)"
      using None by (simp add: e closeLoop_Cons_eq)
    from Cons.IH [of ?w ?c] obtain n where n: "n \<le> length rest"
      and calls: "snd (snd (closeLoop impl rest (?w, ?c))) = ?c @ closeCalls (take n rest)"
      and world: "fst (snd (closeLoop impl rest (?w, ?c))) = closedWorld impl (map snd (take n rest)) ?w"
      and before: "\<forall>i<n - 1. closeResult impl rest ?w i = None"
      and res: "(case fst (closeLoop impl rest (?w, ?c)) of
          None \<Rightarrow> n = length rest \<and> (\<forall>i<n. closeResult impl rest ?w i = None)
        | Some err \<Rightarrow> 0 < n \<and> closeResult impl rest ?w (n - 1) = Some err)"
      by blast
    have r0: "closeResult impl (e # rest) w 0 = None"
      using None by (simp add: e closeResult_0)
    have rS: "\<And>i. closeResult impl (e # rest) w (Suc i) = closeResult impl rest ?w i"
      by (simp add: e closeResult_Suc)
    have all: "\<And>m. (\<forall>i<m. closeResult impl rest ?w i = None) \<Longrightarrow>
        (\<forall>i<Suc m. closeResult impl (e # rest) w i = None)"
    proof (intro allI impI)
      fix m i assume h: "\<forall>i<m. closeResult impl rest ?w i = None" and i: "i < Suc m"
      show "closeResult impl (e # rest) w i = None"
      proof (cases i)
        case 0 then show ?thesis using r0 by simp
      next
        case (Suc j) then show ?thesis using h i rS by simp
      qed
    qed
    have c1: "snd (snd (closeLoop impl (e # rest) (w, calls))) = calls @ closeCalls (take (Suc n) (e # rest))"
      unfolding step using calls by (simp add: e closeCalls_Cons)
    have c2: "fst (snd (closeLoop impl (e # rest) (w, calls))) =
        closedWorld impl (map snd (take (Suc n) (e # rest))) w"
      unfolding step using world by (simp add: e closedWorld_Cons)
    have c3: "\<forall>i<Suc n - 1. closeResult impl (e # rest) w i = None"
    proof (cases "fst (closeLoop impl rest (?w, ?c))")
      case None
      with res have "\<forall>i<n. closeResult impl rest ?w i = None" by simp
      from all [OF this] show ?thesis by simp
    next
      case (Some err)
      with res have "0 < n" by simp
      then have "Suc (n - 1) = n" by simp
      with all [OF before] show ?thesis by simp
    qed
    have c4: "(case fst (closeLoop impl (e # rest) (w, calls)) of
          None \<Rightarrow> Suc n = length (e # rest) \<and> (\<forall>i<Suc n. closeResult impl (e # rest) w i = None)
        | Some err \<Rightarrow> 0 < Suc n \<and> closeResult impl (e # rest) w (Suc n - 1) = Some err)"
    proof (cases "fst (closeLoop impl rest (?w, ?c))")
      case None
      with res have "n = length rest" and "\<forall>i<n. closeResult impl rest ?w i = None" by simp_all
      with all [of n] None show ?thesis by (simp add: step)
    next
      case (Some err)
      with res have "0 < n" and "closeResult impl rest ?w (n - 1) = Some err" by simp_all
      then have "closeResult impl (e # rest) w n = Some err"
        using rS [of "n - 1"] by simp
      with Some show ?thesis by (simp add: step)
    qed
    from n c1 c2 c3 c4 show ?thesis
      by (intro exI [of _ "Suc n"]) simp
  qed
qed


lemma count_list_take_le: "count_list (take n xs) b \<le> count_list xs b"
proof -
  have "count_list (take n xs @ drop n xs) b = count_list (take n xs) b + count_list (drop n xs) b"
    by (rule count_list_append)
  then show ?thesis by simp
qed

lemma count_list_values:
  "distinct (map fst es) \<Longrightarrow> count_list (map snd es) b = card {k. map_of es k = Some b}"
proof (induction es)
  case Nil
  show ?case by simp
next
  case (Cons e es)
  obtain k v where e: "e = (k, v)" by (cases e)
  from Cons.prems have k: "k \<notin> fst ` set es" and d: "distinct (map fst es)"
    by (simp_all add: e)
  from k have none: "map_of es k = None"
    by (simp add: map_of_eq_None_iff)
  have fin: "finite {k'. map_of es k' = Some b}"
    by (rule finite_subset [of _ "dom (map_of es)"]) (auto simp: finite_dom_map_of)
  have notin: "k \<notin> {k'. map_of es k' = Some b}"
    using none by simp
  have set_eq: "{k'. map_of (e # es) k' = Some b} =
      (if v = b then insert k {k'. map_of es k' = Some b} else {k'. map_of es k' = Some b})"
    using none by (auto simp: e)
  have lhs: "count_list (map snd (e # es)) b =
      (if v = b then Suc (count_list (map snd es) b) else count_list (map snd es) b)"
    by (simp add: e)
  have rhs: "card {k'. map_of (e # es) k' = Some b} =
      (if v = b then Suc (card {k'. map_of es k' = Some b}) else card {k'. map_of es k' = Some b})"
    unfolding set_eq using fin notin by simp
  show ?case
    unfolding lhs rhs using Cons.IH [OF d] by simp
qed

lemma filter_key_enumerates:
  "distinct (map fst es) \<Longrightarrow> map_of es k = Some v \<Longrightarrow> filter (\<lambda>e. fst e = k) es = [(k, v)]"
proof (induction es)
  case Nil
  then show ?case by simp
next
  case (Cons e es)
  obtain k' v' where e: "e = (k', v')" by (cases e)
  show ?case
  proof (cases "k' = k")
    case True
    with Cons.prems have "v' = v" and "k \<notin> fst ` set es" by (simp_all add: e)
    then have "filter (\<lambda>e. fst e = k) es = []"
      by (auto simp: filter_empty_conv)
    with True \<open>v' = v\<close> show ?thesis by (simp add: e)
  next
    case False
    with Cons.prems have "distinct (map fst es)" and "map_of es k = Some v" by (simp_all add: e)
    with Cons.IH False show ?thesis by (simp add: e)
  qed
qed

text \<open>
  Claim C7, amended. For every order in which the range statement may visit the registry,
  \<^verbatim>\<open>Close\<close> visits a prefix of it, \<open>n\<close> entries, and calls the \<^verbatim>\<open>Close\<close> of each visited entry's
  backend once, one at a time: the calls logged are those of the first \<open>n\<close> entries, in order,
  and the world is the one these calls leave. No scheme is visited twice, so a backend is
  called at most once for each scheme it is registered under. All visited entries but the
  last closed without error. The result is nil exactly when the \<^verbatim>\<open>Close\<close> of every entry
  succeeds, and then every entry was visited; an error returned is the one of the last visited
  entry, the first that failed, and the entries after it are not visited.
\<close>

theorem storageService_Close_entries:
  assumes "enumerates entries (registry s)"
  shows "\<exists>n\<le>length entries.
      snd (snd (storageService_Close impl entries (w, calls))) = calls @ closeCalls (take n entries)
    \<and> fst (snd (storageService_Close impl entries (w, calls))) =
        closedWorld impl (map snd (take n entries)) w
    \<and> distinct (map fst (take n entries))
    \<and> (\<forall>b. count_list (map snd (take n entries)) b \<le> card {schema. registry s schema = Some b})
    \<and> (\<forall>i<n - 1. closeResult impl entries w i = None)
    \<and> (fst (storageService_Close impl entries (w, calls)) = None \<longleftrightarrow>
         (\<forall>i<length entries. closeResult impl entries w i = None))
    \<and> (fst (storageService_Close impl entries (w, calls)) = None \<longrightarrow> n = length entries)
    \<and> (\<forall>err. fst (storageService_Close impl entries (w, calls)) = Some err \<longrightarrow>
          0 < n \<and> closeResult impl entries w (n - 1) = Some err)"
proof -
  from assms have d: "distinct (map fst entries)" and m: "map_of entries = registry s"
    by (simp_all add: enumerates_def)
  from closeLoop_visits [of entries impl w calls] obtain n where n: "n \<le> length entries"
    and calls: "snd (snd (closeLoop impl entries (w, calls))) = calls @ closeCalls (take n entries)"
    and world: "fst (snd (closeLoop impl entries (w, calls))) = closedWorld impl (map snd (take n entries)) w"
    and before: "\<forall>i<n - 1. closeResult impl entries w i = None"
    and res: "(case fst (closeLoop impl entries (w, calls)) of
          None \<Rightarrow> n = length entries \<and> (\<forall>i<n. closeResult impl entries w i = None)
        | Some err \<Rightarrow> 0 < n \<and> closeResult impl entries w (n - 1) = Some err)"
    by blast
  have dist: "distinct (map fst (take n entries))"
    using d by (simp add: take_map [symmetric] distinct_take)
  have count: "\<forall>b. count_list (map snd (take n entries)) b \<le> card {schema. registry s schema = Some b}"
  proof
    fix b
    have "count_list (map snd (take n entries)) b \<le> count_list (map snd entries) b"
      using count_list_take_le [of n "map snd entries" b] by (simp add: take_map)
    also have "\<dots> = card {schema. map_of entries schema = Some b}"
      by (rule count_list_values [OF d])
    finally show "count_list (map snd (take n entries)) b \<le> card {schema. registry s schema = Some b}"
      by (simp add: m)
  qed
  have iff: "fst (closeLoop impl entries (w, calls)) = None \<longleftrightarrow>
      (\<forall>i<length entries. closeResult impl entries w i = None)"
  proof (cases "fst (closeLoop impl entries (w, calls))")
    case None
    with res show ?thesis by simp
  next
    case (Some err)
    with res have "0 < n" and "closeResult impl entries w (n - 1) = Some err" by simp_all
    moreover from \<open>0 < n\<close> n have "n - 1 < length entries" by simp
    ultimately have "\<not> (\<forall>i<length entries. closeResult impl entries w i = None)"
      by (metis option.distinct(1))
    with Some show ?thesis by simp
  qed
  have full: "fst (closeLoop impl entries (w, calls)) = None \<longrightarrow> n = length entries"
    using res by (simp split: option.splits)
  have err: "\<forall>err. fst (closeLoop impl entries (w, calls)) = Some err \<longrightarrow>
      0 < n \<and> closeResult impl entries w (n - 1) = Some err"
    using res by (simp split: option.splits)
  show ?thesis
    unfolding storageService_Close_def
    using n calls world dist count before iff full err
    by (intro exI [of _ n] conjI)
qed

text \<open>
  Claim C6. Let the URL parse to \<open>u\<close> (for \<^verbatim>\<open>Download\<close> and \<^verbatim>\<open>Delete\<close> it is the URL of the
  object passed in). If the registry has no backend for the scheme of \<open>u\<close>, each of \<^verbatim>\<open>List\<close>,
  \<^verbatim>\<open>Exists\<close>, \<^verbatim>\<open>StorageObject\<close>, \<^verbatim>\<open>Download\<close>, \<^verbatim>\<open>Upload\<close>, \<^verbatim>\<open>Delete\<close> returns the error
  "failed to lookup url schema ..." and leaves the world and the log of backend calls as
  they were: no backend is invoked. If the registry holds the backend \<open>b\<close> for the scheme, each
  operation is one call of the same method of \<open>b\<close> on the same arguments: its result, the
  world it leaves, and that one call logged.
\<close>

theorem storageService_dispatch:
  assumes "parse url = Inr u" and "URL object = url"
  shows "(registry s (Scheme u) = None \<longrightarrow>
            storageService_List impl parse s url \<sigma> =
              (Inl (Error (''failed to lookup url schema '' @ Scheme u @ '' in '' @ url)), \<sigma>)
          \<and> storageService_Exists impl parse s url \<sigma> =
              (Inl (Error (''failed to lookup url schema '' @ Scheme u @ '' in '' @ url)), \<sigma>)
          \<and> storageService_StorageObject impl parse s url \<sigma> =
              (Inl (Error (''failed to lookup url schema '' @ Scheme u @ '' in '' @ url)), \<sigma>)
          \<and> storageService_Download impl parse s object \<sigma> =
              (Inl (Error (''failed to lookup url schema '' @ Scheme u @ '' in '' @ url)), \<sigma>)
          \<and> storageService_Upload impl parse s url reader \<sigma> =
              (Some (Error (''failed to lookup url schema '' @ Scheme u @ '' in '' @ url)), \<sigma>)
          \<and> storageService_Delete impl parse s object \<sigma> =
              (Some (Error (''failed to lookup url schema '' @ Scheme u @ '' in '' @ url)), \<sigma>))
       \<and> (\<forall>b. registry s (Scheme u) = Some b \<longrightarrow>
            storageService_List impl parse s url \<sigma> = invoke b MList (List (impl b) url) \<sigma>
          \<and> storageService_Exists impl parse s url \<sigma> = invoke b MExists (Exists (impl b) url) \<sigma>
          \<and> storageService_StorageObject impl parse s url \<sigma> =
              invoke b MStorageObject (StorageObject (impl b) url) \<sigma>
          \<and> storageService_Download impl parse s object \<sigma> =
              invoke b MDownload (Download (impl b) object) \<sigma>
          \<and> storageService_Upload impl parse s url reader \<sigma> =
              invoke b MUpload (Upload (impl b) url reader) \<sigma>
          \<and> storageService_Delete impl parse s object \<sigma> =
              invoke b MDelete (Delete (impl b) object) \<sigma>)"
  using assms
  by (simp add: getServiceForSchema_def storageService_List_def storageService_Exists_def
      storageService_StorageObject_def storageService_Download_def storageService_Upload_def
      storageService_Delete_def)

lemma sampleParse_mem: "sampleParse ''mem://data/x'' = Inr \<lparr>Scheme = ''mem''\<rparr>"
  by (simp add: sampleParse_def)

lemma sampleParse_ftp: "sampleParse ''ftp://host/path'' = Inr \<lparr>Scheme = ''ftp''\<rparr>"
  by (simp add: sampleParse_def)

text \<open>
  The dispatch at a registry that holds the backend 0 for "mem": an "ftp" URL fails
  without a call, a "mem" URL reaches backend 0.
\<close>

theorem storageService_dispatch_witness:
  "sampleParse ''ftp://host/path'' = Inr \<lparr>Scheme = ''ftp''\<rparr>
   \<and> registry (snd (storageService_Register emptyService ''mem'' 0)) ''ftp'' = None
   \<and> storageService_Exists sampleBackend sampleParse (snd (storageService_Register emptyService ''mem'' 0))
        ''ftp://host/path'' (0, []) =
      (Inl (Error ''failed to lookup url schema ftp in ftp://host/path''), (0, []))
   \<and> storageService_Delete sampleBackend sampleParse (snd (storageService_Register emptyService ''mem'' 0))
        \<lparr>URL = ''ftp://host/path''\<rparr> (0, []) =
      (Some (Error ''failed to lookup url schema ftp in ftp://host/path''), (0, []))
   \<and> sampleParse ''mem://data/x'' = Inr \<lparr>Scheme = ''mem''\<rparr>
   \<and> registry (snd (storageService_Register emptyService ''mem'' 0)) ''mem'' = Some 0
   \<and> storageService_Exists sampleBackend sampleParse (snd (storageService_Register emptyService ''mem'' 0))
        ''mem://data/x'' (0, []) = (Inr True, (1, [(0, MExists)]))
   \<and> storageService_Download sampleBackend sampleParse (snd (storageService_Register emptyService ''mem'' 0))
        \<lparr>URL = ''mem://data/x''\<rparr> (0, []) = (Inr ''mem://data/x'', (1, [(0, MDownload)]))"
proof -
  let ?s = "snd (storageService_Register emptyService ''mem'' 0)"
  have none: "registry ?s ''ftp'' = None" and some: "registry ?s ''mem'' = Some 0"
    by (simp_all add: storageService_Register_def emptyService_def)
  have o1: "URL \<lparr>URL = ''ftp://host/path''\<rparr> = ''ftp://host/path''"
    and o2: "URL \<lparr>URL = ''mem://data/x''\<rparr> = ''mem://data/x''" by simp_all
  note a = storageService_dispatch [where parse = sampleParse and url = "''ftp://host/path''"
      and u = "\<lparr>Scheme = ''ftp''\<rparr>" and object = "\<lparr>URL = ''ftp://host/path''\<rparr>" and s = ?s
      and impl = sampleBackend and \<sigma> = "(0, [])", OF sampleParse_ftp o1]
  note b = storageService_dispatch [where parse = sampleParse and url = "''mem://data/x''"
      and u = "\<lparr>Scheme = ''mem''\<rparr>" and object = "\<lparr>URL = ''mem://data/x''\<rparr>" and s = ?s
      and impl = sampleBackend and \<sigma> = "(0, [])", OF sampleParse_mem o2]
  show ?thesis
    using a b none some sampleParse_ftp sampleParse_mem
    by (simp add: invoke_eq sampleBackend_def)
qed

text \<open>
  Claim C7 as it is written fails where one backend is registered under two schemes: the
  registry built by \<^verbatim>\<open>Register("file", b); Register("mem", b)\<close> with \<open>b\<close> the backend at address
  0 has two entries, and \<^verbatim>\<open>Close\<close> calls the \<^verbatim>\<open>Close\<close> of backend 0 twice.
\<close>

theorem storageService_Close_same_backend_twice:
  "enumerates [(''mem'', 0), (''file'', 0)]
     (registry (snd (storageService_Register (snd (storageService_Register emptyService ''file'' 0)) ''mem'' 0)))
   \<and> snd (snd (storageService_Close sampleBackend [(''mem'', 0), (''file'', 0)] (0, []))) =
       [(0, MClose), (0, MClose)]
   \<and> count_list (snd (snd (storageService_Close sampleBackend [(''mem'', 0), (''file'', 0)] (0, []))))
       (0, MClose) = 2"
  by (simp add: enumerates_def storageService_Register_def emptyService_def storageService_Close_def
      closeLoop_Cons_eq closeLoop_Nil_eq sampleBackend_def)

text \<open>
  Three entries, of which the second to be visited fails to close: the third is not closed.
\<close>

theorem storageService_Close_entries_witness:
  "enumerates [(''s3'', 2), (''mem'', 1), (''file'', 0)]
     (registry (snd (storageService_Register (snd (storageService_Register
        (snd (storageService_Register emptyService ''file'' 0)) ''mem'' 1)) ''s3'' 2)))
   \<and> storageService_Close sampleBackend [(''s3'', 2), (''mem'', 1), (''file'', 0)] (0, []) =
       (Some (Error ''close failed''), (2, [(2, MClose), (1, MClose)]))
   \<and> (\<exists>n\<le>length [(''s3'', 2 :: nat), (''mem'', 1), (''file'', 0)].
      snd (snd (storageService_Close sampleBackend [(''s3'', 2), (''mem'', 1), (''file'', 0)] (0, []))) =
        [] @ closeCalls (take n [(''s3'', 2), (''mem'', 1), (''file'', 0)])
    \<and> fst (snd (storageService_Close sampleBackend [(''s3'', 2), (''mem'', 1), (''file'', 0)] (0, []))) =
        closedWorld sampleBackend (map snd (take n [(''s3'', 2), (''mem'', 1), (''file'', 0)])) 0
    \<and> distinct (map fst (take n [(''s3'', 2 :: nat), (''mem'', 1), (''file'', 0)]))
    \<and> (\<forall>b. count_list (map snd (take n [(''s3'', 2), (''mem'', 1), (''file'', 0)])) b \<le>
          card {schema. registry (snd (storageService_Register (snd (storageService_Register
            (snd (storageService_Register emptyService ''file'' 0)) ''mem'' 1)) ''s3'' 2)) schema = Some b})
    \<and> (\<forall>i<n - 1. closeResult sampleBackend [(''s3'', 2), (''mem'', 1), (''file'', 0)] 0 i = None)
    \<and> (fst (storageService_Close sampleBackend [(''s3'', 2), (''mem'', 1), (''file'', 0)] (0, [])) = None \<longleftrightarrow>
         (\<forall>i<length [(''s3'', 2 :: nat), (''mem'', 1), (''file'', 0)].
            closeResult sampleBackend [(''s3'', 2), (''mem'', 1), (''file'', 0)] 0 i = None))
    \<and> (fst (storageService_Close sampleBackend [(''s3'', 2), (''mem'', 1), (''file'', 0)] (0, [])) = None \<longrightarrow>
         n = length [(''s3'', 2 :: nat), (''mem'', 1), (''file'', 0)])
    \<and> (\<forall>err. fst (storageService_Close sampleBackend [(''s3'', 2), (''mem'', 1), (''file'', 0)] (0, [])) =
          Some err \<longrightarrow>
          0 < n \<and> closeResult sampleBackend [(''s3'', 2), (''mem'', 1), (''file'', 0)] 0 (n - 1) = Some err))"
proof -
  let ?es = "[(''s3'', 2), (''mem'', 1), (''file'', 0 :: nat)]"
  let ?s = "snd (storageService_Register (snd (storageService_Register
        (snd (storageService_Register emptyService ''file'' 0)) ''mem'' 1)) ''s3'' 2)"
  have en: "enumerates ?es (registry ?s)"
    by (simp add: enumerates_def storageService_Register_def emptyService_def)
  have run: "storageService_Close sampleBackend ?es (0, []) =
       (Some (Error ''close failed''), (2, [(2, MClose), (1, MClose)]))"
    by (simp add: storageService_Close_def closeLoop_Cons_eq closeLoop_Nil_eq sampleBackend_def)
  note ex = storageService_Close_entries [OF en, of sampleBackend 0 "[]"]
  show ?thesis
    by (intro conjI en run ex)
qed

text \<open>
  Claim C9. \<^verbatim>\<open>Register\<close> returns nil. After \<^verbatim>\<open>Register(schema, bOld)\<close> and then
  \<^verbatim>\<open>Register(schema, bNew)\<close> the registry maps the scheme to \<open>bNew\<close> and every other scheme as
  before; any enumeration of the registry has exactly one entry for the scheme, the one of
  \<open>bNew\<close>; and every facade operation on a URL whose scheme it is, is a call of \<open>bNew\<close>.
\<close>

theorem storageService_Register_last_wins:
  "fst (storageService_Register s schema b) = None
   \<and> (let s2 = snd (storageService_Register (snd (storageService_Register s schema bOld)) schema bNew) in
        registry s2 schema = Some bNew
      \<and> (\<forall>other. other \<noteq> schema \<longrightarrow> registry s2 other = registry s other)
      \<and> (\<forall>entries. enumerates entries (registry s2) \<longrightarrow>
            filter (\<lambda>e. fst e = schema) entries = [(schema, bNew)])
      \<and> (\<forall>u. parse url = Inr u \<and> Scheme u = schema \<and> URL object = url \<longrightarrow>
            getServiceForSchema parse s2 url = Inr bNew
          \<and> storageService_List impl parse s2 url \<sigma> = invoke bNew MList (List (impl bNew) url) \<sigma>
          \<and> storageService_Exists impl parse s2 url \<sigma> = invoke bNew MExists (Exists (impl bNew) url) \<sigma>
          \<and> storageService_StorageObject impl parse s2 url \<sigma> =
              invoke bNew MStorageObject (StorageObject (impl bNew) url) \<sigma>
          \<and> storageService_Download impl parse s2 object \<sigma> =
              invoke bNew MDownload (Download (impl bNew) object) \<sigma>
          \<and> storageService_Upload impl parse s2 url reader \<sigma> =
              invoke bNew MUpload (Upload (impl bNew) url reader) \<sigma>
          \<and> storageService_Delete impl parse s2 object \<sigma> =
              invoke bNew MDelete (Delete (impl bNew) object) \<sigma>))"
proof -
  define s2 where "s2 = snd (storageService_Register (snd (storageService_Register s schema bOld)) schema bNew)"
  have nil: "fst (storageService_Register s schema b) = None"
    by (simp add: storageService_Register_def)
  have reg: "registry s2 schema = Some bNew"
    by (simp add: s2_def storageService_Register_def)
  have others: "\<forall>other. other \<noteq> schema \<longrightarrow> registry s2 other = registry s other"
    by (simp add: s2_def storageService_Register_def)
  have one: "\<forall>entries. enumerates entries (registry s2) \<longrightarrow>
      filter (\<lambda>e. fst e = schema) entries = [(schema, bNew)]"
  proof (intro allI impI)
    fix entries assume "enumerates entries (registry s2)"
    then have "distinct (map fst entries)" and "map_of entries schema = Some bNew"
      using reg by (simp_all add: enumerates_def)
    then show "filter (\<lambda>e. fst e = schema) entries = [(schema, bNew)]"
      by (rule filter_key_enumerates)
  qed
  have route: "\<forall>u. parse url = Inr u \<and> Scheme u = schema \<and> URL object = url \<longrightarrow>
            getServiceForSchema parse s2 url = Inr bNew
          \<and> storageService_List impl parse s2 url \<sigma> = invoke bNew MList (List (impl bNew) url) \<sigma>
          \<and> storageService_Exists impl parse s2 url \<sigma> = invoke bNew MExists (Exists (impl bNew) url) \<sigma>
          \<and> storageService_StorageObject impl parse s2 url \<sigma> =
              invoke bNew MStorageObject (StorageObject (impl bNew) url) \<sigma>
          \<and> storageService_Download impl parse s2 object \<sigma> =
              invoke bNew MDownload (Download (impl bNew) object) \<sigma>
          \<and> storageService_Upload impl parse s2 url reader \<sigma> =
              invoke bNew MUpload (Upload (impl bNew) url reader) \<sigma>
          \<and> storageService_Delete impl parse s2 object \<sigma> =
              invoke bNew MDelete (Delete (impl bNew) object) \<sigma>"
    using reg
    by (simp add: getServiceForSchema_def storageService_List_def storageService_Exists_def
      storageService_StorageObject_def storageService_Download_def storageService_Upload_def
      storageService_Delete_def)
  from nil reg others one route show ?thesis
    unfolding s2_def [symmetric] Let_def by (intro conjI)
qed

text \<open>
  "mem" registered twice, after "file": the registry has one entry for "mem", the second
  backend, which \<^verbatim>\<open>Exists\<close> on a "mem" URL calls; "file" keeps its backend.
\<close>

theorem storageService_Register_last_wins_witness:
  "enumerates [(''mem'', 2), (''file'', 0)]
     (registry (snd (storageService_Register (snd (storageService_Register
        (snd (storageService_Register emptyService ''file'' 0)) ''mem'' 1)) ''mem'' 2)))
   \<and> filter (\<lambda>e. fst e = ''mem'') [(''mem'', 2 :: nat), (''file'', 0)] = [(''mem'', 2)]
   \<and> sampleParse ''mem://data/x'' = Inr \<lparr>Scheme = ''mem''\<rparr>
   \<and> storageService_Exists sampleBackend sampleParse
        (snd (storageService_Register (snd (storageService_Register
          (snd (storageService_Register emptyService ''file'' 0)) ''mem'' 1)) ''mem'' 2))
        ''mem://data/x'' (0, []) = (Inr True, (1, [(2, MExists)]))
   \<and> registry (snd (storageService_Register (snd (storageService_Register
        (snd (storageService_Register emptyService ''file'' 0)) ''mem'' 1)) ''mem'' 2)) ''file'' = Some 0"
proof -
  let ?s = "snd (storageService_Register emptyService ''file'' 0)"
  let ?s2 = "snd (storageService_Register (snd (storageService_Register ?s ''mem'' 1)) ''mem'' 2)"
  have en: "enumerates [(''mem'', 2), (''file'', 0)] (registry ?s2)"
    by (simp add: enumerates_def storageService_Register_def emptyService_def)
  have fl: "registry ?s ''file'' = Some 0"
    by (simp add: storageService_Register_def emptyService_def)
  note t = storageService_Register_last_wins [where s = ?s and schema = "''mem''" and bOld = 1 and bNew = 2
      and parse = sampleParse and url = "''mem://data/x''" and object = "\<lparr>URL = ''mem://data/x''\<rparr>"
      and impl = sampleBackend and \<sigma> = "(0, [])", unfolded Let_def]
  have f: "filter (\<lambda>e. fst e = ''mem'') [(''mem'', 2 :: nat), (''file'', 0)] = [(''mem'', 2)]"
    using t en by blast
  have ex: "storageService_Exists sampleBackend sampleParse ?s2 ''mem://data/x'' (0, []) =
      invoke 2 MExists (Exists (sampleBackend 2) ''mem://data/x'') (0, [])"
    using t sampleParse_mem by simp
  have other: "registry ?s2 ''file'' = Some 0"
    using t fl by simp
  show ?thesis
    using en f ex other sampleParse_mem by (simp add: invoke_eq sampleBackend_def)
qed

section \<open>The value providers\<close>

lemma registry_Register:
  "valueProviderRegistryImpl.registry (valueProviderRegistryImpl_Register r name p) k =
     (if k = name then Some p else valueProviderRegistryImpl.registry r k)"
  by (simp add: valueProviderRegistryImpl_Register_def)

lemma registerAll_Nil: "registerAll r [] = r"
  by (simp add: registerAll_def)

lemma registerAll_Cons:
  "registerAll r ((name, p) # regs) = registerAll (valueProviderRegistryImpl_Register r name p) regs"
  by (simp add: registerAll_def)

lemma registry_registerAll_other:
  "name \<notin> fst ` set regs \<Longrightarrow>
   valueProviderRegistryImpl.registry (registerAll r regs) name = valueProviderRegistryImpl.registry r name"
proof (induction regs arbitrary: r)
  case Nil
  show ?case by (simp add: registerAll_Nil)
next
  case (Cons e regs)
  obtain k q where e: "e = (k, q)" by (cases e)
  from Cons.prems have "k \<noteq> name" and "name \<notin> fst ` set regs" by (auto simp: e)
  with Cons.IH [of "valueProviderRegistryImpl_Register r k q"] show ?case
    by (simp add: e registerAll_Cons registry_Register)
qed

text \<open>
  Claim C8. \<^verbatim>\<open>Get\<close> of a name the registry does not hold panics with the message "failed to
  lookup name: ..." (it returns no error value), and \<^verbatim>\<open>Contains\<close> is false there. After
  \<^verbatim>\<open>Register(name, p)\<close>, followed by any run of registrations under other names, \<^verbatim>\<open>Get(name)\<close>
  returns \<open>p\<close> and \<^verbatim>\<open>Contains(name)\<close> is true.
\<close>

theorem valueProviderRegistryImpl_lookup:
  "(valueProviderRegistryImpl.registry r name = None \<longrightarrow>
      valueProviderRegistryImpl_Get r name = Panic (''failed to lookup name: '' @ name)
    \<and> \<not> valueProviderRegistryImpl_Contains r name)
   \<and> (name \<notin> fst ` set later \<longrightarrow>
      valueProviderRegistryImpl_Get (registerAll (valueProviderRegistryImpl_Register r name p) later) name =
        Return p
    \<and> valueProviderRegistryImpl_Contains (registerAll (valueProviderRegistryImpl_Register r name p) later) name)"
proof -
  have absent: "valueProviderRegistryImpl.registry r name = None \<longrightarrow>
      valueProviderRegistryImpl_Get r name = Panic (''failed to lookup name: '' @ name)
    \<and> \<not> valueProviderRegistryImpl_Contains r name"
    by (simp add: valueProviderRegistryImpl_Get_def valueProviderRegistryImpl_Contains_def)
  have present: "name \<notin> fst ` set later \<longrightarrow>
      valueProviderRegistryImpl_Get (registerAll (valueProviderRegistryImpl_Register r name p) later) name =
        Return p
    \<and> valueProviderRegistryImpl_Contains (registerAll (valueProviderRegistryImpl_Register r name p) later) name"
  proof
    assume "name \<notin> fst ` set later"
    then have "valueProviderRegistryImpl.registry
        (registerAll (valueProviderRegistryImpl_Register r name p) later) name = Some p"
      by (simp add: registry_registerAll_other registry_Register)
    then show "valueProviderRegistryImpl_Get (registerAll (valueProviderRegistryImpl_Register r name p) later) name =
        Return p
    \<and> valueProviderRegistryImpl_Contains (registerAll (valueProviderRegistryImpl_Register r name p) later) name"
      by (simp add: valueProviderRegistryImpl_Get_def valueProviderRegistryImpl_Contains_def)
  qed
  from absent present show ?thesis by (rule conjI)
qed

text \<open>
  A fresh registry panics on "env"; once "env" is registered, and "cast" and "nil" after
  it, the lookup of "env" returns the provider registered.
\<close>

theorem valueProviderRegistryImpl_lookup_witness:
  "valueProviderRegistryImpl.registry (NewValueProviderRegistry :: nat valueProviderRegistryImpl) ''env'' = None
   \<and> valueProviderRegistryImpl_Get (NewValueProviderRegistry :: nat valueProviderRegistryImpl) ''env'' =
       Panic ''failed to lookup name: env''
   \<and> \<not> valueProviderRegistryImpl_Contains (NewValueProviderRegistry :: nat valueProviderRegistryImpl) ''env''
   \<and> ''env'' \<notin> fst ` set [(''cast'', 2 :: nat), (''nil'', 3)]
   \<and> valueProviderRegistryImpl_Get
        (registerAll (valueProviderRegistryImpl_Register NewValueProviderRegistry ''env'' 1)
          [(''cast'', 2 :: nat), (''nil'', 3)]) ''env'' = Return 1
   \<and> valueProviderRegistryImpl_Contains
        (registerAll (valueProviderRegistryImpl_Register NewValueProviderRegistry ''env'' 1)
          [(''cast'', 2 :: nat), (''nil'', 3)]) ''env''"
proof -
  have a: "valueProviderRegistryImpl.registry (NewValueProviderRegistry :: nat valueProviderRegistryImpl) ''env'' = None"
    by (simp add: NewValueProviderRegistry_def)
  have b: "''env'' \<notin> fst ` set [(''cast'', 2 :: nat), (''nil'', 3)]"
    by simp
  note t = valueProviderRegistryImpl_lookup [where r = "NewValueProviderRegistry :: nat valueProviderRegistryImpl"
      and name = "''env''" and later = "[(''cast'', 2 :: nat), (''nil'', 3)]" and p = 1]
  show ?thesis
    using t a b by simp
qed

text \<open>
  Claim C5. Let the context hold a dictionary under the provider's key, and let the key asked
  for (the first argument as a string) be absent from it. With that one argument \<^verbatim>\<open>Get\<close>
  returns nil and no error, after asking \<^verbatim>\<open>Exists\<close> only. With two or more arguments it
  returns what the dictionary's \<^verbatim>\<open>Get\<close> returns for the key, without asking \<^verbatim>\<open>Exists\<close>; for a
  \<^verbatim>\<open>MapDictionary\<close> that is nil with the error "failed to lookup: ...".
\<close>

theorem dictionaryProvider_Get_absent_key:
  assumes "GetInto ctx (dictionaryContentKey p) = Some dictionary"
    and "\<not> Dictionary_Exists dictionary (AsString h a)"
  shows "dictionaryProvider_Get h GetInto p ctx [a] =
           (Return (VNil, None), [CallGetInto, CallExists (AsString h a)])
       \<and> dictionaryProvider_Get h GetInto p ctx (a # b # rest) =
           (Dictionary_Get dictionary (AsString h a), [CallGetInto, CallGet (AsString h a)])
       \<and> (\<forall>m. dictionary = MapDictionary m \<longrightarrow>
            m (AsString h a) = None
          \<and> fst (dictionaryProvider_Get h GetInto p ctx (a # b # rest)) =
              Return (VNil, Some (Error (''failed to lookup: '' @ AsString h a))))"
  using assms
  by (auto simp: dictionaryProvider_Get_def Let_def MapDictionary_def MapDictionary_Get_def
      MapDictionary_Exists_def split: option.splits)

text \<open>
  A dictionary with the single key "a", asked for "b": nil without error for one argument,
  the dictionary's error for two.
\<close>

theorem dictionaryProvider_Get_absent_key_witness:
  "sampleGetInto [''dict'' \<mapsto> MapDictionary [''a'' \<mapsto> (VInt 1 :: unit value)]] ''dict'' =
      Some (MapDictionary [''a'' \<mapsto> VInt 1])
   \<and> \<not> Dictionary_Exists (MapDictionary [''a'' \<mapsto> (VInt 1 :: unit value)]) (AsString sampleHelpers (VString ''b''))
   \<and> dictionaryProvider_Get sampleHelpers sampleGetInto \<lparr>dictionaryContentKey = ''dict''\<rparr>
        [''dict'' \<mapsto> MapDictionary [''a'' \<mapsto> VInt 1]] [VString ''b''] =
      (Return (VNil, None), [CallGetInto, CallExists ''b''])
   \<and> dictionaryProvider_Get sampleHelpers sampleGetInto \<lparr>dictionaryContentKey = ''dict''\<rparr>
        [''dict'' \<mapsto> MapDictionary [''a'' \<mapsto> VInt 1]] [VString ''b'', VInt 0] =
      (Return (VNil, Some (Error ''failed to lookup: b'')), [CallGetInto, CallGet ''b''])"
proof -
  let ?d = "MapDictionary [''a'' \<mapsto> (VInt 1 :: unit value)]"
  let ?c = "[''dict'' \<mapsto> ?d]"
  let ?p = "\<lparr>dictionaryContentKey = ''dict''\<rparr>"
  have g: "sampleGetInto ?c (dictionaryContentKey ?p) = Some ?d"
    by (simp add: sampleGetInto_def)
  have s: "AsString sampleHelpers (VString ''b'') = ''b''"
    by (simp add: sampleHelpers_def)
  have e: "\<not> Dictionary_Exists ?d (AsString sampleHelpers (VString ''b''))"
    by (simp add: s MapDictionary_def MapDictionary_Exists_def)
  note t = dictionaryProvider_Get_absent_key [where GetInto = sampleGetInto and ctx = ?c
      and p = ?p and dictionary = ?d and h = sampleHelpers and a = "VString ''b''" and b = "VInt 0"
      and rest = "[]", OF g e]
  have mg: "Dictionary_Get ?d ''b'' = Return (VNil, Some (Error ''failed to lookup: b''))"
    by (simp add: MapDictionary_def MapDictionary_Get_def)
  have g': "sampleGetInto ?c ''dict'' = Some ?d"
    by (simp add: sampleGetInto_def)
  show ?thesis
    using t e g' by (simp add: s mg)
qed

text \<open>
  Claim C10. Without arguments \<^verbatim>\<open>Get\<close> returns nil with the error "Expected at least one
  argument but had 0", whatever the context holds (also when it holds no dictionary, where
  any lookup would panic), and makes no dictionary call.
\<close>

theorem dictionaryProvider_Get_no_arguments:
  "dictionaryProvider_Get h GetInto p ctx [] =
     (Return (VNil, Some (Error ''Expected at least one argument but had 0'')), [])"
  by (simp add: dictionaryProvider_Get_def)

lemma showNat_1: "showNat (Suc 0) = ''1''"
  by (subst showNat.simps) (simp add: digitChar_def)

text \<open>
  Claim C2 as it is written fails on an argument list that holds the type name only:
  \<^verbatim>\<open>Get("int")\<close> returns nil with an error that reports the number of arguments, not the zero
  value without error.
\<close>

theorem castedValueProvider_Get_only_type_name:
  "castedValueProvider_Get sampleHelpers [VString ''int''] =
     Return (VNil, Some (Error ''failed to cast to int due to invalid number of arguments, Wanted 2 but had:1''))
   \<and> castedValueProvider_Get sampleHelpers [VString ''int''] \<noteq> Return (VInt 0, None)"
  by (simp add: castedValueProvider_Get_def showNat_1)

text \<open>
  Claim C2, amended. For a type name among int, float, bool and string and at least one
  further argument, \<^verbatim>\<open>Get\<close> returns no error: its value is the first further argument
  converted by \<^verbatim>\<open>AsInt\<close>, \<^verbatim>\<open>AsFloat\<close>, \<^verbatim>\<open>AsBoolean\<close> or \<^verbatim>\<open>AsString\<close>, whatever that argument
  is. With the type name alone it returns nil and the error "failed to cast to ... due to
  invalid number of arguments, Wanted 2 but had:1".
\<close>

theorem castedValueProvider_Get_non_time:
  assumes "key \<in> {''int'', ''float'', ''bool'', ''string''}"
  shows "castedValueProvider_Get h (VString key # a # rest) =
           Return (if key = ''int'' then VInt (AsInt h a)
                   else if key = ''float'' then VFloat (AsFloat h a)
                   else if key = ''bool'' then VBool (AsBoolean h a)
                   else VString (AsString h a), None)
       \<and> castedValueProvider_Get h [VString key] =
           Return (VNil, Some (Error (''failed to cast to '' @ key @
             '' due to invalid number of arguments, Wanted 2 but had:1'')))"
proof -
  from assms consider "key = ''int''" | "key = ''float''" | "key = ''bool''" | "key = ''string''"
    by blast
  then show ?thesis
    by cases (simp_all add: castedValueProvider_Get_def showNat_1)
qed

text \<open>
  With converters that follow their contract, \<^verbatim>\<open>Get("int", "abc")\<close> is zero without error and
  \<^verbatim>\<open>Get("int", "42")\<close> is 42.
\<close>

theorem castedValueProvider_Get_non_time_witness:
  "''int'' \<in> {''int'', ''float'', ''bool'', ''string''}
   \<and> castedValueProvider_Get sampleHelpers [VString ''int'', VString ''abc''] = Return (VInt 0, None)
   \<and> castedValueProvider_Get sampleHelpers [VString ''int'', VString ''42''] = Return (VInt 42, None)
   \<and> castedValueProvider_Get sampleHelpers [VString ''int''] =
       Return (VNil, Some (Error ''failed to cast to int due to invalid number of arguments, Wanted 2 but had:1''))"
proof -
  have k: "''int'' \<in> {''int'', ''float'', ''bool'', ''string''}" by simp
  have z: "AsInt sampleHelpers (VString ''abc'') = 0"
    by (simp add: sampleHelpers_def isDigit_def)
  have n: "AsInt sampleHelpers (VString ''42'') = 42"
    by (simp add: sampleHelpers_def isDigit_def atoi_def)
  note t1 = castedValueProvider_Get_non_time [OF k, of sampleHelpers "VString ''abc''" "[]"]
  note t2 = castedValueProvider_Get_non_time [OF k, of sampleHelpers "VString ''42''" "[]"]
  show ?thesis
    using t1 t2 k by (simp add: z n)
qed

lemma ToLower_empty: "ToLower [] = []"
  by (simp add: ToLower_def)

lemma ToLower_sec: "ToLower ''sec'' = ''sec''"
  by (simp add: ToLower_def toLowerChar_def)

text \<open>
  Claim C1, evaluated at the base time 2017-11-04 22:29:33 UTC (1509834573 seconds after the
  epoch) with a delta of zero seconds. The code divides the sum of \<^verbatim>\<open>Unix()\<close> and
  \<^verbatim>\<open>UnixNano()\<close>: for "unix" the result is 1509834574, one more than the seconds since the
  epoch; for "timestamp" it is 1509834574509, where the milliseconds since the epoch are
  1509834573000.
\<close>

theorem timeDiffProvider_Get_unix_is_off:
  "timeDiffProvider_Get sampleHelpers \<lparr>sec = 0, nsec = 0\<rparr>
     [VTime \<lparr>sec = 1509834573, nsec = 0\<rparr>, VInt 0, VString ''sec'', VString ''unix''] =
     Return (VInt 1509834574, None)
   \<and> Unix \<lparr>sec = 1509834573, nsec = 0\<rparr> = 1509834573
   \<and> timeDiffProvider_Get sampleHelpers \<lparr>sec = 0, nsec = 0\<rparr>
     [VTime \<lparr>sec = 1509834573, nsec = 0\<rparr>, VInt 0, VString ''sec'', VString ''timestamp''] =
     Return (VInt 1509834574509, None)
   \<and> int_div (UnixNano \<lparr>sec = 1509834573, nsec = 0\<rparr>) 1000000 = 1509834573000"
proof -
  let ?t = "\<lparr>sec = 1509834573, nsec = 0\<rparr>"
  have add: "Add ?t 0 = ?t"
    by (simp add: Add_def)
  have u: "Unix ?t = 1509834573" and n: "UnixNano ?t = 1509834573000000000"
    by (simp_all add: Unix_def UnixNano_def)
  have d1: "int_div 1509834574509834573 1000000000 = 1509834574"
    by (simp add: int_div_def signed_divide_int_def)
  have d2: "int_div 1509834574509834573 1000000 = 1509834574509"
    by (simp add: int_div_def signed_divide_int_def)
  have d3: "int_div 1509834573000000000 1000000 = 1509834573000"
    by (simp add: int_div_def signed_divide_int_def)
  have a: "timeDiffProvider_Get sampleHelpers \<lparr>sec = 0, nsec = 0\<rparr>
     [VTime ?t, VInt 0, VString ''sec'', VString ''unix''] = Return (VInt 1509834574, None)"
    by (simp add: timeDiffProvider_Get_def sampleHelpers_def Let_def ToLower_empty ToLower_sec add u n d1)
  have b: "timeDiffProvider_Get sampleHelpers \<lparr>sec = 0, nsec = 0\<rparr>
     [VTime ?t, VInt 0, VString ''sec'', VString ''timestamp''] = Return (VInt 1509834574509, None)"
    by (simp add: timeDiffProvider_Get_def sampleHelpers_def Let_def ToLower_empty ToLower_sec add u n d2)
  show ?thesis
    using a b u by (simp add: n d3)
qed

lemma sint_word_of_int_64:
  "- (2 ^ 63) \<le> x \<Longrightarrow> x < 2 ^ 63 \<Longrightarrow> sint (word_of_int x :: 64 word) = x"
  by (simp add: sint_sbintrunc' signed_take_bit_int_eq_self)

text \<open>
  In general, for a time from the epoch to the year 2096, the "unix" format yields the
  seconds since the epoch plus \<open>(sec + nsec) div 10^9\<close>: it is right only before 2001-09-09,
  while \<open>sec + nsec\<close> stays below \<open>10^9\<close>.
\<close>

lemma unix_plus_nanos:
  assumes "0 \<le> sec t" and "sec t < 4000000000" and "0 \<le> nsec t" and "nsec t < 1000000000"
  shows "sint (int_div (Unix t + UnixNano t) 1000000000) = sec t + (sec t + nsec t) div 1000000000"
proof -
  define x where "x = sec t + (sec t * 1000000000 + nsec t)"
  have sum: "Unix t + UnixNano t = word_of_int x"
    by (simp add: x_def Unix_def UnixNano_def)
  have range: "0 \<le> x" "x < 2 ^ 63"
    using assms by (simp_all add: x_def)
  have sx: "sint (word_of_int x :: 64 word) = x"
    using range by (intro sint_word_of_int_64) simp_all
  have q: "x sdiv 1000000000 = x div 1000000000"
    using range by (simp add: signed_divide_int_def sgn_if)
  have dv: "x div 1000000000 = sec t + (sec t + nsec t) div 1000000000"
    by (simp add: x_def)
  have r2: "- (2 ^ 63) \<le> x div 1000000000" "x div 1000000000 < 2 ^ 63"
    using range by (simp_all add: pos_imp_zdiv_nonneg_iff)
  have "int_div (Unix t + UnixNano t) 1000000000 = word_of_int (x div 1000000000)"
    unfolding int_div_def sum sx by (simp add: q)
  then have "sint (int_div (Unix t + UnixNano t) 1000000000) = x div 1000000000"
    using r2 by (simp only: sint_word_of_int_64)
  then show ?thesis
    by (simp only: dv)
qed

section \<open>The date-format translator\<close>

lemma tokens_nonempty: "\<forall>entry\<in>set tokenTable. fst entry \<noteq> []"
  by (simp add: tokenTable_def)

lemma tokens_longest_first:
  "sorted_wrt (\<lambda>a b. length (fst b) \<le> length (fst a)) tokenTable"
  by (simp add: tokenTable_def)

lemma matchToken_Some:
  assumes "matchToken s = Some (tok, out)"
  shows "(tok, out) \<in> set tokenTable" and "startsWith s tok" and "tok \<noteq> []"
    and "\<forall>entry\<in>set tokenTable. startsWith s (fst entry) \<longrightarrow> length (fst entry) \<le> length tok"
proof -
  from assms obtain i where i: "i < length tokenTable" and p: "startsWith s (fst (tokenTable ! i))"
    and x: "(tok, out) = tokenTable ! i" and before: "\<forall>j<i. \<not> startsWith s (fst (tokenTable ! j))"
    unfolding matchToken_def find_Some_iff by blast
  from i x show mem: "(tok, out) \<in> set tokenTable"
    by (metis nth_mem)
  from p x show "startsWith s tok"
    by (metis fst_conv)
  from mem tokens_nonempty show "tok \<noteq> []"
    by fastforce
  show "\<forall>entry\<in>set tokenTable. startsWith s (fst entry) \<longrightarrow> length (fst entry) \<le> length tok"
  proof (intro ballI impI)
    fix entry assume "entry \<in> set tokenTable" and m: "startsWith s (fst entry)"
    then obtain j where j: "j < length tokenTable" and e: "entry = tokenTable ! j"
      by (metis in_set_conv_nth)
    from m e before have "\<not> j < i" by blast
    then have "i = j \<or> i < j" by linarith
    then show "length (fst entry) \<le> length tok"
    proof
      assume "i = j"
      with e x show ?thesis by (metis fst_conv order_refl)
    next
      assume "i < j"
      with tokens_longest_first j have "length (fst (tokenTable ! j)) \<le> length (fst (tokenTable ! i))"
        by (simp add: sorted_wrt_iff_nth_less)
      with e x show ?thesis by (metis fst_conv)
    qed
  qed
qed

lemma matchToken_None:
  "matchToken s = None \<Longrightarrow> \<forall>entry\<in>set tokenTable. \<not> startsWith s (fst entry)"
  by (auto simp: matchToken_def find_None_iff)

lemma ToLayout_Some:
  assumes "matchToken s = Some (tok, out)"
  shows "ToLayout s = out @ ToLayout (drop (length tok) s)"
proof (cases s)
  case Nil
  with matchToken_Some(2,3) [OF assms] show ?thesis
    by (simp add: startsWith_def)
next
  case (Cons c cs)
  from matchToken_Some(3) [OF assms] obtain n where n: "length tok = Suc n"
    by (cases tok) simp_all
  from assms show ?thesis
    by (simp add: Cons n)
qed

lemma ToLayout_None: "matchToken (c # cs) = None \<Longrightarrow> ToLayout (c # cs) = c # ToLayout cs"
  by simp

declare ToLayout.simps [simp del]

lemma matchToken_ZZ: "startsWith s ''ZZ'' \<Longrightarrow> matchToken s = Some (''ZZ'', ''-0700'')"
  by (cases s rule: list.exhaust; cases "tl s")
    (auto simp: matchToken_def tokenTable_def startsWith_def)

lemma matchToken_MM: "startsWith s ''MM'' \<Longrightarrow> matchToken s = Some (''MM'', ''01'')"
  by (cases s rule: list.exhaust; cases "tl s")
    (auto simp: matchToken_def tokenTable_def startsWith_def)

lemma ToLayout_example:
  "ToLayout ''yyyy-MM-dd HH:mm:ss.SSS ZZ'' = ''2006-01-02 15:04:05.000 -0700''"
  by (simp add: ToLayout.simps matchToken_def tokenTable_def startsWith_def)

lemma ToLayout_Z: "ToLayout ''Z'' = ''-07:00''"
  by (simp add: ToLayout.simps matchToken_def tokenTable_def startsWith_def)

lemma ToLayout_M: "ToLayout ''M'' = ''1''"
  by (simp add: ToLayout.simps matchToken_def tokenTable_def startsWith_def)

lemma layoutItems_example:
  "layoutItems ''2006-01-02 15:04:05.000 -0700'' =
     [LongYear, Lit CHR ''-'', ZeroMonth, Lit CHR ''-'', ZeroDay, Lit CHR '' '', Hour24,
      Lit CHR '':'', ZeroMinute, Lit CHR '':'', ZeroSecond, Millis, Lit CHR '' '', NumTZ]"
  by (simp add: startsWith_def)

lemma referenceParse_example:
  "referenceParse ''2006-01-02 15:04:05.000 -0700'' ''2017-11-04 22:29:33.363 +0000'' =
     Inr \<lparr>year = 2017, month = 11, day = 4, hour = 22, minute = 29, second = 33,
          nanosecond = 363000000, zoneOffset = 0\<rparr>"
  unfolding referenceParse_def layoutItems_example
  by (simp add: digits_def isDigit_def atoi_def daysIn_def)

text \<open>
  Claim C4, on the translator as the specification describes it. Wherever the scan stands, at
  the rest \<open>s\<close> of the pattern: the token matched is one of the table that \<open>s\<close> starts with,
  no token of the table that \<open>s\<close> starts with is longer, and the layout of \<open>s\<close> is the layout
  text of that token followed by the layout of what comes behind the token; when no token
  matches, the character is passed through. So where \<open>s\<close> starts with ZZ the token matched is
  ZZ, not Z twice, and where it starts with MM the token is MM, not M twice. The pattern
  "yyyy-MM-dd HH:mm:ss.SSS ZZ" translates to "2006-01-02 15:04:05.000 -0700": whatever parser
  the host brings, what it returns for the text "2017-11-04 22:29:33.363 +0000" under that
  reference layout it returns under the translated pattern, and \<open>referenceParse\<close> parses the
  text there, to the fourth of November 2017, as the repository's test expects.
\<close>

theorem ToLayout_longest_match:
  "(\<forall>tok out. matchToken s = Some (tok, out) \<longrightarrow>
       (tok, out) \<in> set tokenTable \<and> startsWith s tok
     \<and> (\<forall>entry\<in>set tokenTable. startsWith s (fst entry) \<longrightarrow> length (fst entry) \<le> length tok)
     \<and> ToLayout s = out @ ToLayout (drop (length tok) s))
   \<and> (matchToken s = None \<longrightarrow>
       (\<forall>entry\<in>set tokenTable. \<not> startsWith s (fst entry))
     \<and> (\<forall>c cs. s = c # cs \<longrightarrow> ToLayout s = c # ToLayout cs))
   \<and> (startsWith s ''ZZ'' \<longrightarrow>
       matchToken s = Some (''ZZ'', ''-0700'')
     \<and> ToLayout s = ''-0700'' @ ToLayout (drop 2 s)
     \<and> ToLayout s \<noteq> ToLayout ''Z'' @ ToLayout ''Z'' @ ToLayout (drop 2 s))
   \<and> (startsWith s ''MM'' \<longrightarrow>
       matchToken s = Some (''MM'', ''01'')
     \<and> ToLayout s = ''01'' @ ToLayout (drop 2 s)
     \<and> ToLayout s \<noteq> ToLayout ''M'' @ ToLayout ''M'' @ ToLayout (drop 2 s))
   \<and> ToLayout ''yyyy-MM-dd HH:mm:ss.SSS ZZ'' = ''2006-01-02 15:04:05.000 -0700''
   \<and> (\<forall>t. parse ''2006-01-02 15:04:05.000 -0700'' ''2017-11-04 22:29:33.363 +0000'' = Inr t \<longrightarrow>
         parse (ToLayout ''yyyy-MM-dd HH:mm:ss.SSS ZZ'') ''2017-11-04 22:29:33.363 +0000'' = Inr t)
   \<and> referenceParse (ToLayout ''yyyy-MM-dd HH:mm:ss.SSS ZZ'') ''2017-11-04 22:29:33.363 +0000'' =
       Inr \<lparr>year = 2017, month = 11, day = 4, hour = 22, minute = 29, second = 33,
            nanosecond = 363000000, zoneOffset = 0\<rparr>"
proof -
  have some: "\<forall>tok out. matchToken s = Some (tok, out) \<longrightarrow>
       (tok, out) \<in> set tokenTable \<and> startsWith s tok
     \<and> (\<forall>entry\<in>set tokenTable. startsWith s (fst entry) \<longrightarrow> length (fst entry) \<le> length tok)
     \<and> ToLayout s = out @ ToLayout (drop (length tok) s)"
    using matchToken_Some(1,2,4) ToLayout_Some by blast
  have none: "matchToken s = None \<longrightarrow>
       (\<forall>entry\<in>set tokenTable. \<not> startsWith s (fst entry))
     \<and> (\<forall>c cs. s = c # cs \<longrightarrow> ToLayout s = c # ToLayout cs)"
    using matchToken_None ToLayout_None by blast
  have zz: "startsWith s ''ZZ'' \<longrightarrow>
       matchToken s = Some (''ZZ'', ''-0700'')
     \<and> ToLayout s = ''-0700'' @ ToLayout (drop 2 s)
     \<and> ToLayout s \<noteq> ToLayout ''Z'' @ ToLayout ''Z'' @ ToLayout (drop 2 s)"
  proof
    assume "startsWith s ''ZZ''"
    then have m: "matchToken s = Some (''ZZ'', ''-0700'')"
      by (rule matchToken_ZZ)
    from ToLayout_Some [OF m] have t: "ToLayout s = ''-0700'' @ ToLayout (drop 2 s)"
      by (simp add: numeral_2_eq_2)
    show "matchToken s = Some (''ZZ'', ''-0700'')
     \<and> ToLayout s = ''-0700'' @ ToLayout (drop 2 s)
     \<and> ToLayout s \<noteq> ToLayout ''Z'' @ ToLayout ''Z'' @ ToLayout (drop 2 s)"
      using m t by (simp add: ToLayout_Z)
  qed
  have mm: "startsWith s ''MM'' \<longrightarrow>
       matchToken s = Some (''MM'', ''01'')
     \<and> ToLayout s = ''01'' @ ToLayout (drop 2 s)
     \<and> ToLayout s \<noteq> ToLayout ''M'' @ ToLayout ''M'' @ ToLayout (drop 2 s)"
  proof
    assume "startsWith s ''MM''"
    then have m: "matchToken s = Some (''MM'', ''01'')"
      by (rule matchToken_MM)
    from ToLayout_Some [OF m] have t: "ToLayout s = ''01'' @ ToLayout (drop 2 s)"
      by (simp add: numeral_2_eq_2)
    show "matchToken s = Some (''MM'', ''01'')
     \<and> ToLayout s = ''01'' @ ToLayout (drop 2 s)
     \<and> ToLayout s \<noteq> ToLayout ''M'' @ ToLayout ''M'' @ ToLayout (drop 2 s)"
      using m t by (simp add: ToLayout_M)
  qed
  have p: "\<forall>t. parse ''2006-01-02 15:04:05.000 -0700'' ''2017-11-04 22:29:33.363 +0000'' = Inr t \<longrightarrow>
         parse (ToLayout ''yyyy-MM-dd HH:mm:ss.SSS ZZ'') ''2017-11-04 22:29:33.363 +0000'' = Inr t"
    by (simp only: ToLayout_example) simp
  have q: "referenceParse (ToLayout ''yyyy-MM-dd HH:mm:ss.SSS ZZ'') ''2017-11-04 22:29:33.363 +0000'' =
       Inr \<lparr>year = 2017, month = 11, day = 4, hour = 22, minute = 29, second = 33,
            nanosecond = 363000000, zoneOffset = 0\<rparr>"
    by (simp only: ToLayout_example referenceParse_example)
  from some none zz mm ToLayout_example p q show ?thesis
    by (intro conjI)
qed

text \<open>
  The scan at "MM-dd" (a token matches), at "-dd" (none does) and at "ZZ", and the parse of
  the test's text.
\<close>

theorem ToLayout_longest_match_witness:
  "matchToken ''MM-dd'' = Some (''MM'', ''01'')
   \<and> ToLayout ''MM-dd'' = ''01'' @ ToLayout ''-dd''
   \<and> matchToken ''-dd'' = None
   \<and> ToLayout ''-dd'' = CHR ''-'' # ToLayout ''dd''
   \<and> startsWith ''ZZ'' ''ZZ''
   \<and> ToLayout ''ZZ'' = ''-0700''
   \<and> ToLayout ''ZZ'' \<noteq> ToLayout ''Z'' @ ToLayout ''Z''
   \<and> startsWith ''MM-dd'' ''MM''
   \<and> ToLayout ''MM-dd'' \<noteq> ToLayout ''M'' @ ToLayout ''M'' @ ToLayout ''-dd''
   \<and> referenceParse ''2006-01-02 15:04:05.000 -0700'' ''2017-11-04 22:29:33.363 +0000'' =
       Inr \<lparr>year = 2017, month = 11, day = 4, hour = 22, minute = 29, second = 33,
            nanosecond = 363000000, zoneOffset = 0\<rparr>
   \<and> referenceParse (ToLayout ''yyyy-MM-dd HH:mm:ss.SSS ZZ'') ''2017-11-04 22:29:33.363 +0000'' =
       Inr \<lparr>year = 2017, month = 11, day = 4, hour = 22, minute = 29, second = 33,
            nanosecond = 363000000, zoneOffset = 0\<rparr>"
proof -
  have m1: "matchToken ''MM-dd'' = Some (''MM'', ''01'')"
    by (simp add: ToLayout.simps matchToken_def tokenTable_def startsWith_def)
  have m2: "matchToken ''-dd'' = None"
    by (simp add: ToLayout.simps matchToken_def tokenTable_def startsWith_def)
  have s1: "startsWith ''ZZ'' ''ZZ''" and s2: "startsWith ''MM-dd'' ''MM''"
    by (simp_all add: startsWith_def)
  note a = ToLayout_longest_match [where s = "''MM-dd''" and parse = referenceParse]
  note b = ToLayout_longest_match [where s = "''-dd''" and parse = referenceParse]
  note c = ToLayout_longest_match [where s = "''ZZ''" and parse = referenceParse]
  have d1: "drop 2 ''MM-dd'' = ''-dd''" and d2: "drop 2 ''ZZ'' = []"
    by simp_all
  have e: "ToLayout [] = []"
    by (simp add: ToLayout.simps)
  from a s2 have "ToLayout ''MM-dd'' = ''01'' @ ToLayout (drop 2 ''MM-dd'')
      \<and> ToLayout ''MM-dd'' \<noteq> ToLayout ''M'' @ ToLayout ''M'' @ ToLayout (drop 2 ''MM-dd'')"
    by blast
  then have a1: "ToLayout ''MM-dd'' = ''01'' @ ToLayout ''-dd''"
    and a2: "ToLayout ''MM-dd'' \<noteq> ToLayout ''M'' @ ToLayout ''M'' @ ToLayout ''-dd''"
    unfolding d1 by blast+
  have b1: "ToLayout ''-dd'' = CHR ''-'' # ToLayout ''dd''"
    using b m2 by blast
  from c s1 have "ToLayout ''ZZ'' = ''-0700'' @ ToLayout (drop 2 ''ZZ'')
      \<and> ToLayout ''ZZ'' \<noteq> ToLayout ''Z'' @ ToLayout ''Z'' @ ToLayout (drop 2 ''ZZ'')"
    by blast
  then have "ToLayout ''ZZ'' = ''-0700'' @ [] \<and> ToLayout ''ZZ'' \<noteq> ToLayout ''Z'' @ ToLayout ''Z'' @ []"
    unfolding d2 e .
  then have c1: "ToLayout ''ZZ'' = ''-0700''" and c2: "ToLayout ''ZZ'' \<noteq> ToLayout ''Z'' @ ToLayout ''Z''"
    unfolding append_Nil2 by blast+
  have p: "referenceParse (ToLayout ''yyyy-MM-dd HH:mm:ss.SSS ZZ'') ''2017-11-04 22:29:33.363 +0000'' =
       Inr \<lparr>year = 2017, month = 11, day = 4, hour = 22, minute = 29, second = 33,
            nanosecond = 363000000, zoneOffset = 0\<rparr>"
    using a referenceParse_example by blast
  from m1 a1 m2 b1 s1 c1 c2 s2 a2 referenceParse_example p show ?thesis
    by (intro conjI)
qed


end
